theory Spec2Isabelle
  imports Main
begin

section \<open>Values stored in the columns\<close>

text \<open>
  A \<^verbatim>\<open>DateTime\<close> value is a number of microseconds, a \<^verbatim>\<open>timedelta\<close> a difference of
  such numbers. A \<^verbatim>\<open>Date\<close> is a calendar triple; the check constraint on experiences
  compares two of them chronologically.
\<close>

type_synonym datetime = int

definition timedelta_minutes :: "int \<Rightarrow> int" where
  "timedelta_minutes n = n * 60000000"

definition timedelta_hours :: "int \<Rightarrow> int" where
  "timedelta_hours n = n * 3600000000"

definition timedelta_days :: "int \<Rightarrow> int" where
  "timedelta_days n = n * 86400000000"

datatype date = Date (year: nat) (month: nat) (day: nat)

fun date_le :: "date \<Rightarrow> date \<Rightarrow> bool" where
  "date_le (Date y1 m1 d1) (Date y2 m2 d2) =
     (y1 < y2 \<or> (y1 = y2 \<and> (m1 < m2 \<or> (m1 = m2 \<and> d1 \<le> d2))))"

section \<open>The mapped classes of models.py\<close>

text \<open>
  Every mapped class is a record whose fields are the columns. An attribute that was not
  given to the constructor is \<open>None\<close>, as in Python, and a stored \<^verbatim>\<open>NULL\<close> is \<open>None\<close> too.
  Column names that occur in several classes carry the name of their table.
\<close>

record user =
  user_id :: "nat option"
  email :: "string option"
  username :: "string option"
  password_hash :: "string option"
  user_phone_number :: "string option"
  tier :: "string option"
  user_created_at :: "datetime option"

record resume_project =
  project_id :: "nat option"
  project_user_id :: "nat option"
  project_name :: "string option"
  template_style :: "string option"
  project_phone_number :: "string option"
  linkedin_url :: "string option"
  github_url :: "string option"
  personal_website :: "string option"
  current_company :: "string option"
  is_employed :: "bool option"
  education_details :: "string option"
  project_created_at :: "datetime option"
  project_updated_at :: "datetime option"

record experience =
  experience_id :: "nat option"
  experience_project_id :: "nat option"
  company_name :: "string option"
  position_title :: "string option"
  start_date :: "date option"
  end_date :: "date option"
  description :: "string option"
  verification_status :: "string option"
  experience_created_at :: "datetime option"
  experience_updated_at :: "datetime option"

record verification_request =
  request_id :: "nat option"
  request_experience_id :: "nat option"
  verifier_name :: "string option"
  verifier_position :: "string option"
  verifier_email :: "string option"
  verification_token :: "string option"
  status :: "string option"
  verifier_comment :: "string option"
  requested_at :: "datetime option"
  responded_at :: "datetime option"
  request_expires_at :: "datetime option"

record share_link =
  share_id :: "nat option"
  share_project_id :: "nat option"
  share_token :: "string option"
  recipient_email :: "string option"
  access_type :: "string option"
  email_subject :: "string option"
  email_message :: "string option"
  view_count :: "int option"
  share_created_at :: "datetime option"
  share_expires_at :: "datetime option"

record session =
  session_id :: "nat option"
  session_user_id :: "nat option"
  token :: "string option"
  session_created_at :: "datetime option"
  session_expires_at :: "datetime option"

record template =
  template_id :: "nat option"
  template_name :: "string option"
  s3_path :: "string option"
  template_created_at :: "datetime option"

text \<open>The constructors called without keyword arguments: every attribute is unset.\<close>

definition User :: user where
  "User = \<lparr>user_id = None, email = None, username = None, password_hash = None,
     user_phone_number = None, tier = None, user_created_at = None\<rparr>"

definition ResumeProject :: resume_project where
  "ResumeProject = \<lparr>project_id = None, project_user_id = None, project_name = None,
     template_style = None, project_phone_number = None, linkedin_url = None,
     github_url = None, personal_website = None, current_company = None,
     is_employed = None, education_details = None, project_created_at = None,
     project_updated_at = None\<rparr>"

definition Experience :: experience where
  "Experience = \<lparr>experience_id = None, experience_project_id = None, company_name = None,
     position_title = None, start_date = None, end_date = None, description = None,
     verification_status = None, experience_created_at = None,
     experience_updated_at = None\<rparr>"

definition VerificationRequest :: verification_request where
  "VerificationRequest = \<lparr>request_id = None, request_experience_id = None,
     verifier_name = None, verifier_position = None, verifier_email = None,
     verification_token = None, status = None, verifier_comment = None,
     requested_at = None, responded_at = None, request_expires_at = None\<rparr>"

definition ShareLink :: share_link where
  "ShareLink = \<lparr>share_id = None, share_project_id = None, share_token = None,
     recipient_email = None, access_type = None, email_subject = None,
     email_message = None, view_count = None, share_created_at = None,
     share_expires_at = None\<rparr>"

definition Session :: session where
  "Session = \<lparr>session_id = None, session_user_id = None, token = None,
     session_created_at = None, session_expires_at = None\<rparr>"


section \<open>The database and the ORM session\<close>

text \<open>
  A table that does not exist is \<open>None\<close>; an existing table is the list of its rows in
  insertion order. The database holds the seven tables of \<^verbatim>\<open>Base.metadata\<close>.
\<close>

record database =
  user_table :: "user list option"
  resume_project_table :: "resume_project list option"
  experience_table :: "experience list option"
  verification_request_table :: "verification_request list option"
  share_link_table :: "share_link list option"
  session_table :: "session list option"
  template_table :: "template list option"

definition rows :: "'a list option \<Rightarrow> 'a list" where
  "rows t = (case t of None \<Rightarrow> [] | Some xs \<Rightarrow> xs)"

datatype violation =
    NotNull string
  | Check string
  | Unique string
  | ForeignKey string

datatype error =
    IntegrityError violation
  | OperationalError string
  | StaleDataError

text \<open>An executed \<^verbatim>\<open>INSERT\<close>: the table, the new primary key, the row referenced.\<close>

datatype statement = INSERT string nat "(string \<times> nat) option"

text \<open>
  The outside world of one run: what the successive calls of \<^verbatim>\<open>datetime.utcnow()\<close> and of
  \<^verbatim>\<open>secrets.token_urlsafe(32)\<close> return, and the SHA-256 hex digest of a password.
\<close>

record env =
  utcnow_at :: "nat \<Rightarrow> datetime"
  token_urlsafe_at :: "nat \<Rightarrow> string"
  sha256_hexdigest :: "string \<Rightarrow> string"

text \<open>
  A session sees the committed database and the database of its open transaction. It
  counts the calls made to the clock and to the token generator, and records the
  statements it executed.
\<close>

record db_session =
  committed :: database
  working :: database
  utcnow_calls :: nat
  token_calls :: nat
  journal :: "statement list"

type_synonym 'a action = "db_session \<Rightarrow> (error + 'a) \<times> db_session"

definition return :: "'a \<Rightarrow> 'a action" where
  "return x = (\<lambda>s. (Inr x, s))"

definition raise :: "error \<Rightarrow> 'a action" where
  "raise e = (\<lambda>s. (Inl e, s))"

definition bind :: "'a action \<Rightarrow> ('a \<Rightarrow> 'b action) \<Rightarrow> 'b action" where
  "bind m f = (\<lambda>s. case m s of (Inl e, s') \<Rightarrow> (Inl e, s') | (Inr x, s') \<Rightarrow> f x s')"

definition utcnow :: "env \<Rightarrow> datetime action" where
  "utcnow E = (\<lambda>s. (Inr (utcnow_at E (utcnow_calls s)),
                      s\<lparr>utcnow_calls := Suc (utcnow_calls s)\<rparr>))"

definition generate_token :: "env \<Rightarrow> string action" where
  "generate_token E = (\<lambda>s. (Inr (token_urlsafe_at E (token_calls s)),
                              s\<lparr>token_calls := Suc (token_calls s)\<rparr>))"

definition hash_password :: "env \<Rightarrow> string \<Rightarrow> string" where
  "hash_password E password = sha256_hexdigest E password"

definition commit :: "unit action" where
  "commit = (\<lambda>s. (Inr (), s\<lparr>committed := working s\<rparr>))"

definition rollback :: "db_session \<Rightarrow> db_session" where
  "rollback s = s\<lparr>working := committed s\<rparr>"

definition sessionmaker :: "database \<Rightarrow> db_session" where
  "sessionmaker db = \<lparr>committed = db, working = db, utcnow_calls = 0, token_calls = 0,
     journal = []\<rparr>"

text \<open>A column default applies when the attribute is unset.\<close>

definition column_default :: "'a option \<Rightarrow> 'a action \<Rightarrow> 'a action" where
  "column_default v d = (case v of Some x \<Rightarrow> return x | None \<Rightarrow> d)"

text \<open>The first constraint of a list that is violated.\<close>

fun first_violation :: "(bool \<times> violation) list \<Rightarrow> violation option" where
  "first_violation [] = None"
| "first_violation ((broken, v) # cs) = (if broken then Some v else first_violation cs)"

text \<open>
  A primary key that is not given is one more than the largest key of the table
  (the rowid of SQLite, the database of the default \<^verbatim>\<open>DATABASE_URL\<close>).
\<close>

definition next_id :: "nat list \<Rightarrow> nat" where
  "next_id ids = Suc (fold max ids 0)"

definition assign_id :: "nat option \<Rightarrow> nat list \<Rightarrow> nat" where
  "assign_id given ids = (case given of Some i \<Rightarrow> i | None \<Rightarrow> next_id ids)"

section \<open>Check constraints\<close>

text \<open>
  A check constraint fails only when its expression is false: on a \<^verbatim>\<open>NULL\<close> operand the
  expression is unknown and the constraint holds (the \<^verbatim>\<open>nullable=False\<close> of the column
  rejects the \<^verbatim>\<open>NULL\<close> itself).
\<close>

definition sql_in :: "'a option \<Rightarrow> 'a list \<Rightarrow> bool" where
  "sql_in v vs = (case v of None \<Rightarrow> True | Some x \<Rightarrow> x \<in> set vs)"

text \<open>\<^verbatim>\<open>(end_date IS NULL) OR (end_date >= start_date)\<close>, on the two columns.\<close>

fun sql_date_range :: "date option \<Rightarrow> date option \<Rightarrow> bool" where
  "sql_date_range b None = True"
| "sql_date_range None (Some e) = True"
| "sql_date_range (Some b) (Some e) = date_le b e"

definition check_user_tier :: "user \<Rightarrow> bool" where
  "check_user_tier u = sql_in (tier u) [''normal'', ''premium'']"

definition check_template_style :: "resume_project \<Rightarrow> bool" where
  "check_template_style p = sql_in (template_style p) [''classic'', ''modern'', ''minimal'']"

definition check_verification_status :: "experience \<Rightarrow> bool" where
  "check_verification_status x =
     sql_in (verification_status x) [''not_requested'', ''pending'', ''verified'', ''rejected'']"

definition check_date_range :: "experience \<Rightarrow> bool" where
  "check_date_range x = sql_date_range (start_date x) (end_date x)"

definition check_request_status :: "verification_request \<Rightarrow> bool" where
  "check_request_status r =
     sql_in (status r) [''pending'', ''verified'', ''rejected'', ''expired'']"

definition check_access_type :: "share_link \<Rightarrow> bool" where
  "check_access_type l = sql_in (access_type l) [''view'', ''edit'']"

section \<open>Inserting a row\<close>

text \<open>
  An insert first fills the unset attributes that have a column default, in the order of
  the columns, then executes the statement: the table must exist, the
  \<^verbatim>\<open>nullable=False\<close> columns must be set, the check constraints, the unique columns and the
  foreign key must hold. A statement that fails changes no table.
\<close>

definition execute_insert_user :: "user \<Rightarrow> nat action" where
  "execute_insert_user row = (\<lambda>s.
     case user_table (working s) of
       None \<Rightarrow> (Inl (OperationalError ''no such table: user''), s)
     | Some us \<Rightarrow>
        (case first_violation
           [(email row = None, NotNull ''user.email''),
            (username row = None, NotNull ''user.username''),
            (password_hash row = None, NotNull ''user.password_hash''),
            (tier row = None, NotNull ''user.tier''),
            (user_created_at row = None, NotNull ''user.created_at''),
            (\<not> check_user_tier row, Check ''check_user_tier''),
            (user_id row \<noteq> None \<and> user_id row \<in> set (map user_id us),
               Unique ''user.user_id''),
            (email row \<in> set (map email us), Unique ''user.email''),
            (username row \<in> set (map username us), Unique ''user.username'')] of
           Some v \<Rightarrow> (Inl (IntegrityError v), s)
         | None \<Rightarrow>
            let i = assign_id (user_id row) (List.map_filter user_id us) in
            (Inr i,
             s\<lparr>working := (working s)\<lparr>user_table := Some (us @ [row\<lparr>user_id := Some i\<rparr>])\<rparr>,
               journal := journal s @ [INSERT ''user'' i None]\<rparr>)))"

definition insert_user :: "env \<Rightarrow> user \<Rightarrow> nat action" where
  "insert_user E obj =
     bind (column_default (tier obj) (return ''normal'')) (\<lambda>t.
     bind (column_default (user_created_at obj) (utcnow E)) (\<lambda>c.
     execute_insert_user (obj\<lparr>tier := Some t, user_created_at := Some c\<rparr>)))"

definition execute_insert_resume_project :: "resume_project \<Rightarrow> nat action" where
  "execute_insert_resume_project row = (\<lambda>s.
     case resume_project_table (working s) of
       None \<Rightarrow> (Inl (OperationalError ''no such table: resume_project''), s)
     | Some ps \<Rightarrow>
        (case first_violation
           [(project_user_id row = None, NotNull ''resume_project.user_id''),
            (project_name row = None, NotNull ''resume_project.project_name''),
            (template_style row = None, NotNull ''resume_project.template_style''),
            (is_employed row = None, NotNull ''resume_project.is_employed''),
            (project_created_at row = None, NotNull ''resume_project.created_at''),
            (project_updated_at row = None, NotNull ''resume_project.updated_at''),
            (\<not> check_template_style row, Check ''check_template_style''),
            (project_id row \<noteq> None \<and> project_id row \<in> set (map project_id ps),
               Unique ''resume_project.project_id''),
            (project_user_id row \<notin> set (map user_id (rows (user_table (working s)))),
               ForeignKey ''resume_project.user_id'')] of
           Some v \<Rightarrow> (Inl (IntegrityError v), s)
         | None \<Rightarrow>
            let i = assign_id (project_id row) (List.map_filter project_id ps) in
            (Inr i,
             s\<lparr>working := (working s)
                  \<lparr>resume_project_table := Some (ps @ [row\<lparr>project_id := Some i\<rparr>])\<rparr>,
               journal := journal s @
                  [INSERT ''resume_project'' i
                     (map_option (Pair ''user'') (project_user_id row))]\<rparr>)))"

definition insert_resume_project :: "env \<Rightarrow> resume_project \<Rightarrow> nat action" where
  "insert_resume_project E obj =
     bind (column_default (template_style obj) (return ''classic'')) (\<lambda>t.
     bind (column_default (is_employed obj) (return False)) (\<lambda>e.
     bind (column_default (project_created_at obj) (utcnow E)) (\<lambda>c.
     bind (column_default (project_updated_at obj) (utcnow E)) (\<lambda>u.
     execute_insert_resume_project
       (obj\<lparr>template_style := Some t, is_employed := Some e,
            project_created_at := Some c, project_updated_at := Some u\<rparr>)))))"

definition execute_insert_experience :: "experience \<Rightarrow> nat action" where
  "execute_insert_experience row = (\<lambda>s.
     case experience_table (working s) of
       None \<Rightarrow> (Inl (OperationalError ''no such table: experience''), s)
     | Some xs \<Rightarrow>
        (case first_violation
           [(experience_project_id row = None, NotNull ''experience.project_id''),
            (company_name row = None, NotNull ''experience.company_name''),
            (position_title row = None, NotNull ''experience.position_title''),
            (start_date row = None, NotNull ''experience.start_date''),
            (description row = None, NotNull ''experience.description''),
            (verification_status row = None, NotNull ''experience.verification_status''),
            (experience_created_at row = None, NotNull ''experience.created_at''),
            (experience_updated_at row = None, NotNull ''experience.updated_at''),
            (\<not> check_verification_status row, Check ''check_verification_status''),
            (\<not> check_date_range row, Check ''check_date_range''),
            (experience_id row \<noteq> None \<and> experience_id row \<in> set (map experience_id xs),
               Unique ''experience.experience_id''),
            (experience_project_id row
               \<notin> set (map project_id (rows (resume_project_table (working s)))),
               ForeignKey ''experience.project_id'')] of
           Some v \<Rightarrow> (Inl (IntegrityError v), s)
         | None \<Rightarrow>
            let i = assign_id (experience_id row) (List.map_filter experience_id xs) in
            (Inr i,
             s\<lparr>working := (working s)
                  \<lparr>experience_table := Some (xs @ [row\<lparr>experience_id := Some i\<rparr>])\<rparr>,
               journal := journal s @
                  [INSERT ''experience'' i
                     (map_option (Pair ''resume_project'') (experience_project_id row))]\<rparr>)))"

definition insert_experience :: "env \<Rightarrow> experience \<Rightarrow> nat action" where
  "insert_experience E obj =
     bind (column_default (verification_status obj) (return ''not_requested'')) (\<lambda>v.
     bind (column_default (experience_created_at obj) (utcnow E)) (\<lambda>c.
     bind (column_default (experience_updated_at obj) (utcnow E)) (\<lambda>u.
     execute_insert_experience
       (obj\<lparr>verification_status := Some v, experience_created_at := Some c,
            experience_updated_at := Some u\<rparr>))))"

definition execute_insert_verification_request :: "verification_request \<Rightarrow> nat action" where
  "execute_insert_verification_request row = (\<lambda>s.
     case verification_request_table (working s) of
       None \<Rightarrow> (Inl (OperationalError ''no such table: verification_request''), s)
     | Some rs \<Rightarrow>
        (case first_violation
           [(request_experience_id row = None, NotNull ''verification_request.experience_id''),
            (verifier_name row = None, NotNull ''verification_request.verifier_name''),
            (verifier_position row = None, NotNull ''verification_request.verifier_position''),
            (verifier_email row = None, NotNull ''verification_request.verifier_email''),
            (verification_token row = None,
               NotNull ''verification_request.verification_token''),
            (status row = None, NotNull ''verification_request.status''),
            (requested_at row = None, NotNull ''verification_request.requested_at''),
            (request_expires_at row = None, NotNull ''verification_request.expires_at''),
            (\<not> check_request_status row, Check ''check_request_status''),
            (request_id row \<noteq> None \<and> request_id row \<in> set (map request_id rs),
               Unique ''verification_request.request_id''),
            (verification_token row \<in> set (map verification_token rs),
               Unique ''verification_request.verification_token''),
            (request_experience_id row
               \<notin> set (map experience_id (rows (experience_table (working s)))),
               ForeignKey ''verification_request.experience_id'')] of
           Some v \<Rightarrow> (Inl (IntegrityError v), s)
         | None \<Rightarrow>
            let i = assign_id (request_id row) (List.map_filter request_id rs) in
            (Inr i,
             s\<lparr>working := (working s)
                  \<lparr>verification_request_table := Some (rs @ [row\<lparr>request_id := Some i\<rparr>])\<rparr>,
               journal := journal s @
                  [INSERT ''verification_request'' i
                     (map_option (Pair ''experience'') (request_experience_id row))]\<rparr>)))"

definition insert_verification_request :: "env \<Rightarrow> verification_request \<Rightarrow> nat action" where
  "insert_verification_request E obj =
     bind (column_default (status obj) (return ''pending'')) (\<lambda>st.
     bind (column_default (requested_at obj) (utcnow E)) (\<lambda>rq.
     bind (column_default (request_expires_at obj)
             (bind (utcnow E) (\<lambda>now. return (now + timedelta_days 30)))) (\<lambda>ex.
     execute_insert_verification_request
       (obj\<lparr>status := Some st, requested_at := Some rq, request_expires_at := Some ex\<rparr>))))"

definition execute_insert_share_link :: "share_link \<Rightarrow> nat action" where
  "execute_insert_share_link row = (\<lambda>s.
     case share_link_table (working s) of
       None \<Rightarrow> (Inl (OperationalError ''no such table: share_link''), s)
     | Some ls \<Rightarrow>
        (case first_violation
           [(share_project_id row = None, NotNull ''share_link.project_id''),
            (share_token row = None, NotNull ''share_link.share_token''),
            (access_type row = None, NotNull ''share_link.access_type''),
            (view_count row = None, NotNull ''share_link.view_count''),
            (share_created_at row = None, NotNull ''share_link.created_at''),
            (\<not> check_access_type row, Check ''check_access_type''),
            (share_id row \<noteq> None \<and> share_id row \<in> set (map share_id ls),
               Unique ''share_link.share_id''),
            (share_token row \<in> set (map share_token ls), Unique ''share_link.share_token''),
            (share_project_id row
               \<notin> set (map project_id (rows (resume_project_table (working s)))),
               ForeignKey ''share_link.project_id'')] of
           Some v \<Rightarrow> (Inl (IntegrityError v), s)
         | None \<Rightarrow>
            let i = assign_id (share_id row) (List.map_filter share_id ls) in
            (Inr i,
             s\<lparr>working := (working s)
                  \<lparr>share_link_table := Some (ls @ [row\<lparr>share_id := Some i\<rparr>])\<rparr>,
               journal := journal s @
                  [INSERT ''share_link'' i
                     (map_option (Pair ''resume_project'') (share_project_id row))]\<rparr>)))"

definition insert_share_link :: "env \<Rightarrow> share_link \<Rightarrow> nat action" where
  "insert_share_link E obj =
     bind (column_default (access_type obj) (return ''view'')) (\<lambda>a.
     bind (column_default (view_count obj) (return 0)) (\<lambda>n.
     bind (column_default (share_created_at obj) (utcnow E)) (\<lambda>c.
     execute_insert_share_link
       (obj\<lparr>access_type := Some a, view_count := Some n, share_created_at := Some c\<rparr>))))"

definition execute_insert_session :: "session \<Rightarrow> nat action" where
  "execute_insert_session row = (\<lambda>s.
     case session_table (working s) of
       None \<Rightarrow> (Inl (OperationalError ''no such table: session''), s)
     | Some ss \<Rightarrow>
        (case first_violation
           [(session_user_id row = None, NotNull ''session.user_id''),
            (token row = None, NotNull ''session.token''),
            (session_created_at row = None, NotNull ''session.created_at''),
            (session_expires_at row = None, NotNull ''session.expires_at''),
            (session_id row \<noteq> None \<and> session_id row \<in> set (map session_id ss),
               Unique ''session.session_id''),
            (token row \<in> set (map token ss), Unique ''session.token''),
            (session_user_id row \<notin> set (map user_id (rows (user_table (working s)))),
               ForeignKey ''session.user_id'')] of
           Some v \<Rightarrow> (Inl (IntegrityError v), s)
         | None \<Rightarrow>
            let i = assign_id (session_id row) (List.map_filter session_id ss) in
            (Inr i,
             s\<lparr>working := (working s)
                  \<lparr>session_table := Some (ss @ [row\<lparr>session_id := Some i\<rparr>])\<rparr>,
               journal := journal s @
                  [INSERT ''session'' i (map_option (Pair ''user'') (session_user_id row))]\<rparr>)))"

definition insert_session :: "env \<Rightarrow> session \<Rightarrow> nat action" where
  "insert_session E obj =
     bind (column_default (session_created_at obj) (utcnow E)) (\<lambda>c.
     bind (column_default (session_expires_at obj)
             (bind (utcnow E) (\<lambda>now. return (now + timedelta_days 7)))) (\<lambda>ex.
     execute_insert_session
       (obj\<lparr>session_created_at := Some c, session_expires_at := Some ex\<rparr>)))"

section \<open>Updating a row\<close>

text \<open>
  Flushing a persistent object that was modified issues an \<^verbatim>\<open>UPDATE\<close> of the row that has
  its primary key. No statement is issued when nothing changed, and a row that is gone
  is an error of the session. The constraints of the table are checked on the new row.
\<close>

definition update_user :: "user \<Rightarrow> unit action" where
  "update_user obj = (\<lambda>s.
     case user_table (working s) of
       None \<Rightarrow> (Inl (OperationalError ''no such table: user''), s)
     | Some us \<Rightarrow>
        (case find (\<lambda>u. user_id obj \<noteq> None \<and> user_id u = user_id obj) us of
           None \<Rightarrow> (Inl StaleDataError, s)
         | Some old \<Rightarrow>
            if obj = old then (Inr (), s)
            else
              let others = filter (\<lambda>u. user_id u \<noteq> user_id obj) us in
              (case first_violation
                 [(email obj = None, NotNull ''user.email''),
                  (username obj = None, NotNull ''user.username''),
                  (password_hash obj = None, NotNull ''user.password_hash''),
                  (tier obj = None, NotNull ''user.tier''),
                  (user_created_at obj = None, NotNull ''user.created_at''),
                  (\<not> check_user_tier obj, Check ''check_user_tier''),
                  (email obj \<in> set (map email others), Unique ''user.email''),
                  (username obj \<in> set (map username others), Unique ''user.username'')] of
                 Some v \<Rightarrow> (Inl (IntegrityError v), s)
               | None \<Rightarrow>
                  (Inr (),
                   s\<lparr>working := (working s)
                        \<lparr>user_table :=
                           Some (map (\<lambda>u. if user_id u = user_id obj then obj else u) us)\<rparr>\<rparr>))))"

definition execute_update_experience :: "experience \<Rightarrow> unit action" where
  "execute_update_experience row = (\<lambda>s.
     case first_violation
        [(experience_project_id row = None, NotNull ''experience.project_id''),
         (company_name row = None, NotNull ''experience.company_name''),
         (position_title row = None, NotNull ''experience.position_title''),
         (start_date row = None, NotNull ''experience.start_date''),
         (description row = None, NotNull ''experience.description''),
         (verification_status row = None, NotNull ''experience.verification_status''),
         (experience_created_at row = None, NotNull ''experience.created_at''),
         (experience_updated_at row = None, NotNull ''experience.updated_at''),
         (\<not> check_verification_status row, Check ''check_verification_status''),
         (\<not> check_date_range row, Check ''check_date_range''),
         (experience_project_id row
            \<notin> set (map project_id (rows (resume_project_table (working s)))),
            ForeignKey ''experience.project_id'')] of
       Some v \<Rightarrow> (Inl (IntegrityError v), s)
     | None \<Rightarrow>
        (Inr (),
         s\<lparr>working := (working s)
              \<lparr>experience_table :=
                 Some (map (\<lambda>x. if experience_id x = experience_id row then row else x)
                         (rows (experience_table (working s))))\<rparr>\<rparr>))"

text \<open>
  \<^verbatim>\<open>onupdate=datetime.utcnow\<close>: an update that does not set \<^verbatim>\<open>updated_at\<close> itself stamps
  it with the time of the update.
\<close>

definition update_experience :: "env \<Rightarrow> experience \<Rightarrow> unit action" where
  "update_experience E obj = (\<lambda>s.
     case experience_table (working s) of
       None \<Rightarrow> (Inl (OperationalError ''no such table: experience''), s)
     | Some xs \<Rightarrow>
        (case find (\<lambda>x. experience_id obj \<noteq> None \<and> experience_id x = experience_id obj) xs of
           None \<Rightarrow> (Inl StaleDataError, s)
         | Some old \<Rightarrow>
            if obj = old then (Inr (), s)
            else if experience_updated_at obj = experience_updated_at old
            then bind (utcnow E) (\<lambda>now.
                   execute_update_experience (obj\<lparr>experience_updated_at := Some now\<rparr>)) s
            else execute_update_experience obj s))"

section \<open>Deleting a user\<close>

text \<open>
  Every foreign key is declared \<^verbatim>\<open>ondelete='CASCADE'\<close> and every relationship
  \<^verbatim>\<open>cascade='all, delete-orphan'\<close>: deleting rows deletes the rows of the child tables
  that reference them, and so on down the tables. A \<^verbatim>\<open>NULL\<close> reference matches no row.
\<close>

definition refers_to :: "nat option \<Rightarrow> nat option list \<Rightarrow> bool" where
  "refers_to fk keys = (fk \<noteq> None \<and> fk \<in> set keys)"

definition delete_verification_requests ::
    "(verification_request \<Rightarrow> bool) \<Rightarrow> database \<Rightarrow> database" where
  "delete_verification_requests doomed db =
     db\<lparr>verification_request_table :=
          map_option (filter (\<lambda>r. \<not> doomed r)) (verification_request_table db)\<rparr>"

definition delete_share_links :: "(share_link \<Rightarrow> bool) \<Rightarrow> database \<Rightarrow> database" where
  "delete_share_links doomed db =
     db\<lparr>share_link_table := map_option (filter (\<lambda>l. \<not> doomed l)) (share_link_table db)\<rparr>"

definition delete_sessions :: "(session \<Rightarrow> bool) \<Rightarrow> database \<Rightarrow> database" where
  "delete_sessions doomed db =
     db\<lparr>session_table := map_option (filter (\<lambda>x. \<not> doomed x)) (session_table db)\<rparr>"

definition delete_experiences :: "(experience \<Rightarrow> bool) \<Rightarrow> database \<Rightarrow> database" where
  "delete_experiences doomed db =
     (let gone = map experience_id (filter doomed (rows (experience_table db))) in
      delete_verification_requests (\<lambda>r. refers_to (request_experience_id r) gone)
        (db\<lparr>experience_table :=
              map_option (filter (\<lambda>x. \<not> doomed x)) (experience_table db)\<rparr>))"

definition delete_resume_projects :: "(resume_project \<Rightarrow> bool) \<Rightarrow> database \<Rightarrow> database" where
  "delete_resume_projects doomed db =
     (let gone = map project_id (filter doomed (rows (resume_project_table db))) in
      delete_share_links (\<lambda>l. refers_to (share_project_id l) gone)
        (delete_experiences (\<lambda>x. refers_to (experience_project_id x) gone)
           (db\<lparr>resume_project_table :=
                 map_option (filter (\<lambda>p. \<not> doomed p)) (resume_project_table db)\<rparr>)))"

definition delete_users :: "(user \<Rightarrow> bool) \<Rightarrow> database \<Rightarrow> database" where
  "delete_users doomed db =
     (let gone = map user_id (filter doomed (rows (user_table db))) in
      delete_sessions (\<lambda>x. refers_to (session_user_id x) gone)
        (delete_resume_projects (\<lambda>p. refers_to (project_user_id p) gone)
           (db\<lparr>user_table := map_option (filter (\<lambda>u. \<not> doomed u)) (user_table db)\<rparr>)))"

definition delete_user :: "nat \<Rightarrow> unit action" where
  "delete_user uid = (\<lambda>s.
     case user_table (working s) of
       None \<Rightarrow> (Inl (OperationalError ''no such table: user''), s)
     | Some us \<Rightarrow>
        (Inr (), s\<lparr>working := delete_users (\<lambda>u. user_id u = Some uid) (working s)\<rparr>))"

section \<open>setup_database.py\<close>

text \<open>
  \<^verbatim>\<open>Base.metadata.drop_all\<close> drops every table of the metadata that exists, children
  before parents; \<^verbatim>\<open>Base.metadata.create_all\<close> creates, empty, every table of the
  metadata that does not exist.
\<close>

definition drop_all :: "database \<Rightarrow> database" where
  "drop_all db =
     db\<lparr>session_table := None, share_link_table := None,
        verification_request_table := None, experience_table := None,
        resume_project_table := None, user_table := None, template_table := None\<rparr>"

definition create_table :: "'a list option \<Rightarrow> 'a list option" where
  "create_table t = (case t of None \<Rightarrow> Some [] | Some xs \<Rightarrow> Some xs)"

definition create_all :: "database \<Rightarrow> database" where
  "create_all db =
     db\<lparr>user_table := create_table (user_table db),
        resume_project_table := create_table (resume_project_table db),
        experience_table := create_table (experience_table db),
        verification_request_table := create_table (verification_request_table db),
        share_link_table := create_table (share_link_table db),
        session_table := create_table (session_table db),
        template_table := create_table (template_table db)\<rparr>"

definition setup_database :: "database \<Rightarrow> database" where
  "setup_database db = create_all (drop_all db)"

section \<open>populate_database.py\<close>

subsection \<open>1. Create users\<close>

definition user1 :: "env \<Rightarrow> user action" where
  "user1 E = bind (utcnow E) (\<lambda>now. return
     (User\<lparr>email := Some ''john.doe@email.com'',
           username := Some ''johndoe'',
           password_hash := Some (hash_password E ''password123''),
           user_phone_number := Some ''+1-555-0101'',
           tier := Some ''premium'',
           user_created_at := Some (now - timedelta_days 90)\<rparr>))"

definition user2 :: "env \<Rightarrow> user action" where
  "user2 E = bind (utcnow E) (\<lambda>now. return
     (User\<lparr>email := Some ''jane.smith@email.com'',
           username := Some ''janesmith'',
           password_hash := Some (hash_password E ''password456''),
           user_phone_number := Some ''+1-555-0102'',
           tier := Some ''normal'',
           user_created_at := Some (now - timedelta_days 60)\<rparr>))"

definition user3 :: "env \<Rightarrow> user action" where
  "user3 E = bind (utcnow E) (\<lambda>now. return
     (User\<lparr>email := Some ''alex.johnson@email.com'',
           username := Some ''alexj'',
           password_hash := Some (hash_password E ''password789''),
           user_phone_number := Some ''+1-555-0103'',
           tier := Some ''normal'',
           user_created_at := Some (now - timedelta_days 30)\<rparr>))"

text \<open>
  \<^verbatim>\<open>add_all\<close> followed by \<^verbatim>\<open>commit\<close> flushes the new objects, one \<^verbatim>\<open>INSERT\<close> each in the
  order given, and commits the transaction. The primary keys are known from then on.
\<close>

definition create_users :: "env \<Rightarrow> (nat \<times> nat \<times> nat) action" where
  "create_users E =
     bind (user1 E) (\<lambda>u1. bind (user2 E) (\<lambda>u2. bind (user3 E) (\<lambda>u3.
     bind (insert_user E u1) (\<lambda>user1_id.
     bind (insert_user E u2) (\<lambda>user2_id.
     bind (insert_user E u3) (\<lambda>user3_id.
     bind commit (\<lambda>_. return (user1_id, user2_id, user3_id))))))))"

subsection \<open>2. Create resume projects\<close>

definition project1 :: "env \<Rightarrow> nat \<Rightarrow> resume_project action" where
  \<open>project1 E user1_id = bind (utcnow E) (\<lambda>now. return
     (ResumeProject\<lparr>project_user_id := Some user1_id,
           project_name := Some ''Software Engineering Resume'',
           project_phone_number := Some ''+1-555-0101'',
           linkedin_url := Some ''https://linkedin.com/in/johndoe'',
           github_url := Some ''https://github.com/johndoe'',
           personal_website := Some ''https://johndoe.dev'',
           current_company := Some ''Tech Corp'',
           is_employed := Some True,
           education_details := Some (''[{"degree": "Bachelor of Science", "field": "Computer Science", "institution": "MIT", "graduation_year": 2015, "gpa": 3.8}, '' @ ''{"degree": "Master of Science", "field": "Software Engineering", "institution": "Stanford University", "graduation_year": 2017, "gpa": 3.9}]''),
           project_created_at := Some (now - timedelta_days 80)\<rparr>))\<close>

definition project2 :: "env \<Rightarrow> nat \<Rightarrow> resume_project action" where
  \<open>project2 E user1_id = bind (utcnow E) (\<lambda>now. return
     (ResumeProject\<lparr>project_user_id := Some user1_id,
           project_name := Some ''Project Management Resume'',
           template_style := Some ''classic'',
           project_phone_number := Some ''+1-555-0101'',
           linkedin_url := Some ''https://linkedin.com/in/johndoe'',
           current_company := Some ''Tech Corp'',
           is_employed := Some True,
           education_details := Some ''[{"degree": "Bachelor of Science", "field": "Computer Science", "institution": "MIT", "graduation_year": 2015, "gpa": 3.8}]'',
           project_created_at := Some (now - timedelta_days 40)\<rparr>))\<close>

definition project3 :: "env \<Rightarrow> nat \<Rightarrow> resume_project action" where
  \<open>project3 E user2_id = bind (utcnow E) (\<lambda>now. return
     (ResumeProject\<lparr>project_user_id := Some user2_id,
           project_name := Some ''Marketing Professional Resume'',
           template_style := Some ''minimal'',
           project_phone_number := Some ''+1-555-0102'',
           linkedin_url := Some ''https://linkedin.com/in/janesmith'',
           current_company := None,
           is_employed := Some False,
           education_details := Some ''[{"degree": "Bachelor of Arts", "field": "Marketing", "institution": "UCLA", "graduation_year": 2016, "gpa": 3.7}]'',
           project_created_at := Some (now - timedelta_days 50)\<rparr>))\<close>

definition project4 :: "env \<Rightarrow> nat \<Rightarrow> resume_project action" where
  \<open>project4 E user3_id = bind (utcnow E) (\<lambda>now. return
     (ResumeProject\<lparr>project_user_id := Some user3_id,
           project_name := Some ''Data Science Resume'',
           template_style := Some ''modern'',
           project_phone_number := Some ''+1-555-0103'',
           linkedin_url := Some ''https://linkedin.com/in/alexjohnson'',
           github_url := Some ''https://github.com/alexj'',
           current_company := Some ''Analytics Inc'',
           is_employed := Some True,
           education_details := Some ''[{"degree": "Ph.D.", "field": "Statistics", "institution": "UC Berkeley", "graduation_year": 2019, "gpa": 4.0}]'',
           project_created_at := Some (now - timedelta_days 25)\<rparr>))\<close>

definition create_resume_projects ::
    "env \<Rightarrow> nat \<Rightarrow> nat \<Rightarrow> nat \<Rightarrow> (nat \<times> nat \<times> nat \<times> nat) action" where
  "create_resume_projects E user1_id user2_id user3_id =
     bind (project1 E user1_id) (\<lambda>p1. bind (project2 E user1_id) (\<lambda>p2.
     bind (project3 E user2_id) (\<lambda>p3. bind (project4 E user3_id) (\<lambda>p4.
     bind (insert_resume_project E p1) (\<lambda>project1_id.
     bind (insert_resume_project E p2) (\<lambda>project2_id.
     bind (insert_resume_project E p3) (\<lambda>project3_id.
     bind (insert_resume_project E p4) (\<lambda>project4_id.
     bind commit (\<lambda>_.
       return (project1_id, project2_id, project3_id, project4_id))))))))))"

subsection \<open>3. Create work experiences\<close>

definition exp1 :: "env \<Rightarrow> nat \<Rightarrow> experience action" where
  "exp1 E project1_id = bind (utcnow E) (\<lambda>now. return
     (Experience\<lparr>experience_project_id := Some project1_id,
           company_name := Some ''Tech Corp'',
           position_title := Some ''Senior Software Engineer'',
           start_date := Some (Date 2020 1 15),
           end_date := None,
           description := Some
               (''Leading development of microservices architecture. Mentoring junior '' @
                 ''developers. Implementing CI/CD pipelines and improving code quality '' @
                 ''through comprehensive testing.''),
           verification_status := Some ''verified'',
           experience_created_at := Some (now - timedelta_days 75)\<rparr>))"

definition exp2 :: "env \<Rightarrow> nat \<Rightarrow> experience action" where
  "exp2 E project1_id = bind (utcnow E) (\<lambda>now. return
     (Experience\<lparr>experience_project_id := Some project1_id,
           company_name := Some ''StartupXYZ'',
           position_title := Some ''Software Engineer'',
           start_date := Some (Date 2017 6 1),
           end_date := Some (Date 2019 12 31),
           description := Some
               (''Developed RESTful APIs using Python and Flask. Built responsive '' @
                 ''front-end interfaces with React. Collaborated with cross-functional '' @
                 ''teams to deliver features.''),
           verification_status := Some ''verified'',
           experience_created_at := Some (now - timedelta_days 75)\<rparr>))"

definition exp3 :: "env \<Rightarrow> nat \<Rightarrow> experience action" where
  "exp3 E project1_id = bind (utcnow E) (\<lambda>now. return
     (Experience\<lparr>experience_project_id := Some project1_id,
           company_name := Some ''InnovateLabs'',
           position_title := Some ''Junior Developer'',
           start_date := Some (Date 2015 7 1),
           end_date := Some (Date 2017 5 31),
           description := Some
               (''Built internal tools using JavaScript and Node.js. Participated in '' @
                 ''agile development cycles. Fixed bugs and improved application '' @
                 ''performance.''),
           verification_status := Some ''pending'',
           experience_created_at := Some (now - timedelta_days 75)\<rparr>))"

definition exp4 :: "env \<Rightarrow> nat \<Rightarrow> experience action" where
  "exp4 E project2_id = bind (utcnow E) (\<lambda>now. return
     (Experience\<lparr>experience_project_id := Some project2_id,
           company_name := Some ''Tech Corp'',
           position_title := Some ''Technical Project Manager'',
           start_date := Some (Date 2021 3 1),
           end_date := None,
           description := Some
               (''Managing cross-functional teams of 15+ members. Overseeing product '' @
                 ''roadmap and sprint planning. Stakeholder communication and risk '' @
                 ''management.''),
           verification_status := Some ''not_requested'',
           experience_created_at := Some (now - timedelta_days 35)\<rparr>))"

definition exp5 :: "env \<Rightarrow> nat \<Rightarrow> experience action" where
  "exp5 E project3_id = bind (utcnow E) (\<lambda>now. return
     (Experience\<lparr>experience_project_id := Some project3_id,
           company_name := Some ''Brand Solutions Inc'',
           position_title := Some ''Senior Marketing Manager'',
           start_date := Some (Date 2019 1 1),
           end_date := Some (Date 2024 6 30),
           description := Some
               (''Led marketing campaigns resulting in 40% increase in customer '' @
                 ''engagement. Managed budget of $500K. Coordinated with design and '' @
                 ''content teams.''),
           verification_status := Some ''verified'',
           experience_created_at := Some (now - timedelta_days 45)\<rparr>))"

definition exp6 :: "env \<Rightarrow> nat \<Rightarrow> experience action" where
  "exp6 E project3_id = bind (utcnow E) (\<lambda>now. return
     (Experience\<lparr>experience_project_id := Some project3_id,
           company_name := Some ''Digital Marketing Agency'',
           position_title := Some ''Marketing Coordinator'',
           start_date := Some (Date 2016 8 1),
           end_date := Some (Date 2018 12 31),
           description := Some
               (''Coordinated social media campaigns across multiple platforms. Analyzed '' @
                 ''campaign metrics and prepared reports. Collaborated with clients on '' @
                 ''strategy.''),
           verification_status := Some ''rejected'',
           experience_created_at := Some (now - timedelta_days 45)\<rparr>))"

definition exp7 :: "env \<Rightarrow> nat \<Rightarrow> experience action" where
  "exp7 E project4_id = bind (utcnow E) (\<lambda>now. return
     (Experience\<lparr>experience_project_id := Some project4_id,
           company_name := Some ''Analytics Inc'',
           position_title := Some ''Lead Data Scientist'',
           start_date := Some (Date 2022 1 15),
           end_date := None,
           description := Some
               (''Building machine learning models for customer churn prediction. '' @
                 ''Leading a team of 5 data scientists. Presenting insights to C-level '' @
                 ''executives.''),
           verification_status := Some ''verified'',
           experience_created_at := Some (now - timedelta_days 20)\<rparr>))"

definition exp8 :: "env \<Rightarrow> nat \<Rightarrow> experience action" where
  "exp8 E project4_id = bind (utcnow E) (\<lambda>now. return
     (Experience\<lparr>experience_project_id := Some project4_id,
           company_name := Some ''Research Institute'',
           position_title := Some ''Research Scientist'',
           start_date := Some (Date 2019 9 1),
           end_date := Some (Date 2021 12 31),
           description := Some
               (''Conducted statistical analysis on large datasets. Published 5 '' @
                 ''peer-reviewed papers. Developed novel algorithms for data processing.''),
           verification_status := Some ''pending'',
           experience_created_at := Some (now - timedelta_days 20)\<rparr>))"

definition create_experiences ::
    "env \<Rightarrow> nat \<Rightarrow> nat \<Rightarrow> nat \<Rightarrow> nat \<Rightarrow>
       (nat \<times> nat \<times> nat \<times> nat \<times> nat \<times> nat \<times> nat \<times> nat) action" where
  "create_experiences E project1_id project2_id project3_id project4_id =
     bind (exp1 E project1_id) (\<lambda>x1. bind (exp2 E project1_id) (\<lambda>x2.
     bind (exp3 E project1_id) (\<lambda>x3. bind (exp4 E project2_id) (\<lambda>x4.
     bind (exp5 E project3_id) (\<lambda>x5. bind (exp6 E project3_id) (\<lambda>x6.
     bind (exp7 E project4_id) (\<lambda>x7. bind (exp8 E project4_id) (\<lambda>x8.
     bind (insert_experience E x1) (\<lambda>exp1_id.
     bind (insert_experience E x2) (\<lambda>exp2_id.
     bind (insert_experience E x3) (\<lambda>exp3_id.
     bind (insert_experience E x4) (\<lambda>exp4_id.
     bind (insert_experience E x5) (\<lambda>exp5_id.
     bind (insert_experience E x6) (\<lambda>exp6_id.
     bind (insert_experience E x7) (\<lambda>exp7_id.
     bind (insert_experience E x8) (\<lambda>exp8_id.
     bind commit (\<lambda>_.
       return (exp1_id, exp2_id, exp3_id, exp4_id, exp5_id, exp6_id, exp7_id, exp8_id)
     )))))))))))))))))"

subsection \<open>4. Create verification requests\<close>

definition vr1 :: "env \<Rightarrow> nat \<Rightarrow> verification_request action" where
  "vr1 E exp1_id = bind (generate_token E) (\<lambda>tok.
     bind (utcnow E) (\<lambda>now1. bind (utcnow E) (\<lambda>now2. bind (utcnow E) (\<lambda>now3. return
     (VerificationRequest\<lparr>request_experience_id := Some exp1_id,
           verifier_name := Some ''Sarah Manager'',
           verifier_position := Some ''Engineering Director'',
           verifier_email := Some ''sarah.manager@techcorp.com'',
           verification_token := Some tok,
           status := Some ''verified'',
           verifier_comment := Some
               (''John is an exceptional engineer. His technical skills and leadership '' @
                 ''have been invaluable to our team.''),
           requested_at := Some (now1 - timedelta_days 60),
           responded_at := Some (now2 - timedelta_days 55),
           request_expires_at := Some (now3 + timedelta_days 30)\<rparr>)))))"

definition vr2 :: "env \<Rightarrow> nat \<Rightarrow> verification_request action" where
  "vr2 E exp2_id = bind (generate_token E) (\<lambda>tok.
     bind (utcnow E) (\<lambda>now1. bind (utcnow E) (\<lambda>now2. bind (utcnow E) (\<lambda>now3. return
     (VerificationRequest\<lparr>request_experience_id := Some exp2_id,
           verifier_name := Some ''Mike Founder'',
           verifier_position := Some ''CEO'',
           verifier_email := Some ''mike@startupxyz.com'',
           verification_token := Some tok,
           status := Some ''verified'',
           verifier_comment := Some
               ''John was a key member of our early engineering team. Highly recommend!'',
           requested_at := Some (now1 - timedelta_days 70),
           responded_at := Some (now2 - timedelta_days 65),
           request_expires_at := Some (now3 + timedelta_days 30)\<rparr>)))))"

definition vr3 :: "env \<Rightarrow> nat \<Rightarrow> verification_request action" where
  "vr3 E exp3_id = bind (generate_token E) (\<lambda>tok.
     bind (utcnow E) (\<lambda>now1. bind (utcnow E) (\<lambda>now2. return
     (VerificationRequest\<lparr>request_experience_id := Some exp3_id,
           verifier_name := Some ''Lisa Supervisor'',
           verifier_position := Some ''Senior Developer'',
           verifier_email := Some ''lisa@innovatelabs.com'',
           verification_token := Some tok,
           status := Some ''pending'',
           verifier_comment := None,
           requested_at := Some (now1 - timedelta_days 10),
           responded_at := None,
           request_expires_at := Some (now2 + timedelta_days 20)\<rparr>))))"

definition vr4 :: "env \<Rightarrow> nat \<Rightarrow> verification_request action" where
  "vr4 E exp5_id = bind (generate_token E) (\<lambda>tok.
     bind (utcnow E) (\<lambda>now1. bind (utcnow E) (\<lambda>now2. bind (utcnow E) (\<lambda>now3. return
     (VerificationRequest\<lparr>request_experience_id := Some exp5_id,
           verifier_name := Some ''Robert Director'',
           verifier_position := Some ''VP of Marketing'',
           verifier_email := Some ''robert@brandsolutions.com'',
           verification_token := Some tok,
           status := Some ''verified'',
           verifier_comment := Some
               (''Jane consistently exceeded expectations. Her campaigns drove '' @
                 ''significant business growth.''),
           requested_at := Some (now1 - timedelta_days 40),
           responded_at := Some (now2 - timedelta_days 35),
           request_expires_at := Some (now3 + timedelta_days 30)\<rparr>)))))"

definition vr5 :: "env \<Rightarrow> nat \<Rightarrow> verification_request action" where
  "vr5 E exp6_id = bind (generate_token E) (\<lambda>tok.
     bind (utcnow E) (\<lambda>now1. bind (utcnow E) (\<lambda>now2. bind (utcnow E) (\<lambda>now3. return
     (VerificationRequest\<lparr>request_experience_id := Some exp6_id,
           verifier_name := Some ''Chris Manager'',
           verifier_position := Some ''Marketing Director'',
           verifier_email := Some ''chris@digitalagency.com'',
           verification_token := Some tok,
           status := Some ''rejected'',
           verifier_comment := Some
               (''I do not recall working with Jane in this capacity during the stated '' @
                 ''time period.''),
           requested_at := Some (now1 - timedelta_days 42),
           responded_at := Some (now2 - timedelta_days 38),
           request_expires_at := Some (now3 + timedelta_days 30)\<rparr>)))))"

definition vr6 :: "env \<Rightarrow> nat \<Rightarrow> verification_request action" where
  "vr6 E exp7_id = bind (generate_token E) (\<lambda>tok.
     bind (utcnow E) (\<lambda>now1. bind (utcnow E) (\<lambda>now2. bind (utcnow E) (\<lambda>now3. return
     (VerificationRequest\<lparr>request_experience_id := Some exp7_id,
           verifier_name := Some ''Emily CTO'',
           verifier_position := Some ''Chief Technology Officer'',
           verifier_email := Some ''emily.cto@analyticsinc.com'',
           verification_token := Some tok,
           status := Some ''verified'',
           verifier_comment := Some
               (''Alex is a brilliant data scientist. Their models have saved us '' @
                 ''millions in operational costs.''),
           requested_at := Some (now1 - timedelta_days 15),
           responded_at := Some (now2 - timedelta_days 12),
           request_expires_at := Some (now3 + timedelta_days 30)\<rparr>)))))"

definition vr7 :: "env \<Rightarrow> nat \<Rightarrow> verification_request action" where
  "vr7 E exp8_id = bind (generate_token E) (\<lambda>tok.
     bind (utcnow E) (\<lambda>now1. bind (utcnow E) (\<lambda>now2. return
     (VerificationRequest\<lparr>request_experience_id := Some exp8_id,
           verifier_name := Some ''Dr. Patricia Research'',
           verifier_position := Some ''Principal Investigator'',
           verifier_email := Some ''patricia@researchinstitute.edu'',
           verification_token := Some tok,
           status := Some ''pending'',
           verifier_comment := None,
           requested_at := Some (now1 - timedelta_days 5),
           responded_at := None,
           request_expires_at := Some (now2 + timedelta_days 25)\<rparr>))))"

definition vr8 :: "env \<Rightarrow> nat \<Rightarrow> verification_request action" where
  "vr8 E exp3_id = bind (generate_token E) (\<lambda>tok.
     bind (utcnow E) (\<lambda>now1. bind (utcnow E) (\<lambda>now2. return
     (VerificationRequest\<lparr>request_experience_id := Some exp3_id,
           verifier_name := Some ''Tom Colleague'',
           verifier_position := Some ''Developer'',
           verifier_email := Some ''tom@innovatelabs.com'',
           verification_token := Some tok,
           status := Some ''pending'',
           verifier_comment := None,
           requested_at := Some (now1 - timedelta_days 8),
           responded_at := None,
           request_expires_at := Some (now2 + timedelta_days 22)\<rparr>))))"

definition create_verification_requests ::
    "env \<Rightarrow> nat \<Rightarrow> nat \<Rightarrow> nat \<Rightarrow> nat \<Rightarrow> nat \<Rightarrow> nat \<Rightarrow> nat \<Rightarrow> unit action" where
  "create_verification_requests E exp1_id exp2_id exp3_id exp5_id exp6_id exp7_id exp8_id =
     bind (vr1 E exp1_id) (\<lambda>r1. bind (vr2 E exp2_id) (\<lambda>r2.
     bind (vr3 E exp3_id) (\<lambda>r3. bind (vr4 E exp5_id) (\<lambda>r4.
     bind (vr5 E exp6_id) (\<lambda>r5. bind (vr6 E exp7_id) (\<lambda>r6.
     bind (vr7 E exp8_id) (\<lambda>r7. bind (vr8 E exp3_id) (\<lambda>r8.
     bind (insert_verification_request E r1) (\<lambda>_.
     bind (insert_verification_request E r2) (\<lambda>_.
     bind (insert_verification_request E r3) (\<lambda>_.
     bind (insert_verification_request E r4) (\<lambda>_.
     bind (insert_verification_request E r5) (\<lambda>_.
     bind (insert_verification_request E r6) (\<lambda>_.
     bind (insert_verification_request E r7) (\<lambda>_.
     bind (insert_verification_request E r8) (\<lambda>_.
     commit))))))))))))))))"

subsection \<open>5. Create share links\<close>

definition share1 :: "env \<Rightarrow> nat \<Rightarrow> share_link action" where
  "share1 E project1_id = bind (generate_token E) (\<lambda>tok.
     bind (utcnow E) (\<lambda>now1. bind (utcnow E) (\<lambda>now2. return
     (ShareLink\<lparr>share_project_id := Some project1_id,
           share_token := Some tok,
           recipient_email := Some ''recruiter@bigtech.com'',
           access_type := Some ''view'',
           email_subject := Some ''My Software Engineering Resume'',
           email_message := Some ''Hi! Please review my resume for the Senior Engineer position.'',
           view_count := Some 5,
           share_created_at := Some (now1 - timedelta_days 30),
           share_expires_at := Some (now2 + timedelta_days 60)\<rparr>))))"

definition share2 :: "env \<Rightarrow> nat \<Rightarrow> share_link action" where
  "share2 E project1_id = bind (generate_token E) (\<lambda>tok. bind (utcnow E) (\<lambda>now1. return
     (ShareLink\<lparr>share_project_id := Some project1_id,
           share_token := Some tok,
           recipient_email := Some ''mentor@career.com'',
           access_type := Some ''edit'',
           email_subject := Some ''Resume Review Request'',
           email_message := Some ''Could you please review and suggest edits to my resume?'',
           view_count := Some 2,
           share_created_at := Some (now1 - timedelta_days 20),
           share_expires_at := None\<rparr>)))"

definition share3 :: "env \<Rightarrow> nat \<Rightarrow> share_link action" where
  "share3 E project2_id = bind (generate_token E) (\<lambda>tok.
     bind (utcnow E) (\<lambda>now1. bind (utcnow E) (\<lambda>now2. return
     (ShareLink\<lparr>share_project_id := Some project2_id,
           share_token := Some tok,
           recipient_email := Some ''pm.hiring@company.com'',
           access_type := Some ''view'',
           email_subject := Some ''Project Management Resume'',
           email_message := Some ''Here is my PM-focused resume for the open position.'',
           view_count := Some 1,
           share_created_at := Some (now1 - timedelta_days 10),
           share_expires_at := Some (now2 + timedelta_days 30)\<rparr>))))"

definition share4 :: "env \<Rightarrow> nat \<Rightarrow> share_link action" where
  "share4 E project3_id = bind (generate_token E) (\<lambda>tok. bind (utcnow E) (\<lambda>now1. return
     (ShareLink\<lparr>share_project_id := Some project3_id,
           share_token := Some tok,
           recipient_email := None,
           access_type := Some ''view'',
           email_subject := None,
           email_message := None,
           view_count := Some 12,
           share_created_at := Some (now1 - timedelta_days 45),
           share_expires_at := None\<rparr>)))"

definition share5 :: "env \<Rightarrow> nat \<Rightarrow> share_link action" where
  "share5 E project4_id = bind (generate_token E) (\<lambda>tok.
     bind (utcnow E) (\<lambda>now1. bind (utcnow E) (\<lambda>now2. return
     (ShareLink\<lparr>share_project_id := Some project4_id,
           share_token := Some tok,
           recipient_email := Some ''data.recruiter@analytics.com'',
           access_type := Some ''view'',
           email_subject := Some ''Data Science Resume - Alex Johnson'',
           email_message := Some ''Please find my resume attached via this secure link.'',
           view_count := Some 3,
           share_created_at := Some (now1 - timedelta_days 5),
           share_expires_at := Some (now2 + timedelta_days 45)\<rparr>))))"

definition create_share_links :: "env \<Rightarrow> nat \<Rightarrow> nat \<Rightarrow> nat \<Rightarrow> nat \<Rightarrow> unit action" where
  "create_share_links E project1_id project2_id project3_id project4_id =
     bind (share1 E project1_id) (\<lambda>l1. bind (share2 E project1_id) (\<lambda>l2.
     bind (share3 E project2_id) (\<lambda>l3. bind (share4 E project3_id) (\<lambda>l4.
     bind (share5 E project4_id) (\<lambda>l5.
     bind (insert_share_link E l1) (\<lambda>_.
     bind (insert_share_link E l2) (\<lambda>_.
     bind (insert_share_link E l3) (\<lambda>_.
     bind (insert_share_link E l4) (\<lambda>_.
     bind (insert_share_link E l5) (\<lambda>_.
     commit))))))))))"

subsection \<open>6. Create sessions\<close>

definition session1 :: "env \<Rightarrow> nat \<Rightarrow> session action" where
  "session1 E user1_id = bind (generate_token E) (\<lambda>tok.
     bind (utcnow E) (\<lambda>now1. bind (utcnow E) (\<lambda>now2. return
     (Session\<lparr>session_user_id := Some user1_id,
           token := Some tok,
           session_created_at := Some (now1 - timedelta_hours 2),
           session_expires_at := Some (now2 + timedelta_days 7)\<rparr>))))"

definition session2 :: "env \<Rightarrow> nat \<Rightarrow> session action" where
  "session2 E user1_id = bind (generate_token E) (\<lambda>tok.
     bind (utcnow E) (\<lambda>now1. bind (utcnow E) (\<lambda>now2. return
     (Session\<lparr>session_user_id := Some user1_id,
           token := Some tok,
           session_created_at := Some (now1 - timedelta_days 1),
           session_expires_at := Some (now2 + timedelta_days 6)\<rparr>))))"

definition session3 :: "env \<Rightarrow> nat \<Rightarrow> session action" where
  "session3 E user2_id = bind (generate_token E) (\<lambda>tok.
     bind (utcnow E) (\<lambda>now1. bind (utcnow E) (\<lambda>now2. return
     (Session\<lparr>session_user_id := Some user2_id,
           token := Some tok,
           session_created_at := Some (now1 - timedelta_hours 5),
           session_expires_at := Some (now2 + timedelta_days 7)\<rparr>))))"

definition session4 :: "env \<Rightarrow> nat \<Rightarrow> session action" where
  "session4 E user3_id = bind (generate_token E) (\<lambda>tok.
     bind (utcnow E) (\<lambda>now1. bind (utcnow E) (\<lambda>now2. return
     (Session\<lparr>session_user_id := Some user3_id,
           token := Some tok,
           session_created_at := Some (now1 - timedelta_minutes 30),
           session_expires_at := Some (now2 + timedelta_days 7)\<rparr>))))"

definition create_sessions :: "env \<Rightarrow> nat \<Rightarrow> nat \<Rightarrow> nat \<Rightarrow> unit action" where
  "create_sessions E user1_id user2_id user3_id =
     bind (session1 E user1_id) (\<lambda>s1. bind (session2 E user1_id) (\<lambda>s2.
     bind (session3 E user2_id) (\<lambda>s3. bind (session4 E user3_id) (\<lambda>s4.
     bind (insert_session E s1) (\<lambda>_.
     bind (insert_session E s2) (\<lambda>_.
     bind (insert_session E s3) (\<lambda>_.
     bind (insert_session E s4) (\<lambda>_.
     commit))))))))"

subsection \<open>The procedure\<close>

text \<open>The body of the \<^verbatim>\<open>try\<close> block: the six sections in order.\<close>

definition try_body :: "env \<Rightarrow> unit action" where
  "try_body E =
     bind (create_users E) (\<lambda>(user1_id, user2_id, user3_id).
     bind (create_resume_projects E user1_id user2_id user3_id)
       (\<lambda>(project1_id, project2_id, project3_id, project4_id).
     bind (create_experiences E project1_id project2_id project3_id project4_id)
       (\<lambda>(exp1_id, exp2_id, exp3_id, exp4_id, exp5_id, exp6_id, exp7_id, exp8_id).
     bind (create_verification_requests E exp1_id exp2_id exp3_id exp5_id exp6_id
             exp7_id exp8_id) (\<lambda>_.
     bind (create_share_links E project1_id project2_id project3_id project4_id) (\<lambda>_.
     create_sessions E user1_id user2_id user3_id)))))"

text \<open>
  An exception of the \<^verbatim>\<open>try\<close> block is caught, the open transaction is rolled back and
  the exception is raised again: the procedure returns it, or \<open>None\<close> when it completes.
\<close>

definition populate_session :: "env \<Rightarrow> database \<Rightarrow> error option \<times> db_session" where
  "populate_session E db =
     (case try_body E (sessionmaker db) of
        (Inl e, s) \<Rightarrow> (Some e, rollback s)
      | (Inr _, s) \<Rightarrow> (None, s))"

text \<open>Closing the session leaves the committed database.\<close>

definition populate_database :: "env \<Rightarrow> database \<Rightarrow> error option \<times> database" where
  "populate_database E db =
     (case populate_session E db of (r, s) \<Rightarrow> (r, committed s))"

section \<open>Properties of a database\<close>

definition empty_schema :: database where
  "empty_schema = \<lparr>user_table = Some [], resume_project_table = Some [],
     experience_table = Some [], verification_request_table = Some [],
     share_link_table = Some [], session_table = Some [], template_table = Some []\<rparr>"

text \<open>
  The numbers of users, projects, experiences, verification requests, share links and
  sessions, in this order.
\<close>

definition row_counts :: "database \<Rightarrow> nat list" where
  "row_counts db =
     [length (rows (user_table db)), length (rows (resume_project_table db)),
      length (rows (experience_table db)), length (rows (verification_request_table db)),
      length (rows (share_link_table db)), length (rows (session_table db))]"

text \<open>
  A journal inserts parents first when every inserted row that references a row names
  one that an earlier statement of the journal inserted.
\<close>

fun parents_first_from :: "(string \<times> nat) list \<Rightarrow> statement list \<Rightarrow> bool" where
  "parents_first_from seen [] = True"
| "parents_first_from seen (INSERT t i parent # stmts) =
     ((case parent of None \<Rightarrow> True | Some ref \<Rightarrow> ref \<in> set seen)
      \<and> parents_first_from ((t, i) # seen) stmts)"

definition parents_first :: "statement list \<Rightarrow> bool" where
  "parents_first stmts = parents_first_from [] stmts"

definition tier_is_valid :: "user \<Rightarrow> bool" where
  "tier_is_valid u = (tier u \<in> set [Some ''normal'', Some ''premium''])"

definition date_range_is_valid :: "experience \<Rightarrow> bool" where
  "date_range_is_valid x =
     (case end_date x of None \<Rightarrow> True
      | Some e \<Rightarrow> (case start_date x of None \<Rightarrow> False | Some b \<Rightarrow> date_le b e))"

text \<open>A reference is intact when it is \<^verbatim>\<open>NULL\<close> or the key of a row of the parent table.\<close>

definition intact :: "nat option \<Rightarrow> nat option list \<Rightarrow> bool" where
  "intact fk keys = (case fk of None \<Rightarrow> True | Some i \<Rightarrow> Some i \<in> set keys)"

definition no_orphans :: "database \<Rightarrow> bool" where
  "no_orphans db =
     (list_all (\<lambda>p. intact (project_user_id p) (map user_id (rows (user_table db))))
        (rows (resume_project_table db))
      \<and> list_all (\<lambda>x. intact (session_user_id x) (map user_id (rows (user_table db))))
        (rows (session_table db))
      \<and> list_all (\<lambda>x. intact (experience_project_id x)
                        (map project_id (rows (resume_project_table db))))
        (rows (experience_table db))
      \<and> list_all (\<lambda>l. intact (share_project_id l)
                        (map project_id (rows (resume_project_table db))))
        (rows (share_link_table db))
      \<and> list_all (\<lambda>r. intact (request_experience_id r)
                        (map experience_id (rows (experience_table db))))
        (rows (verification_request_table db)))"

text \<open>The rows that descend from a user.\<close>

definition projects_of_user :: "nat \<Rightarrow> database \<Rightarrow> resume_project list" where
  "projects_of_user uid db =
     filter (\<lambda>p. project_user_id p = Some uid) (rows (resume_project_table db))"

definition experiences_of_user :: "nat \<Rightarrow> database \<Rightarrow> experience list" where
  "experiences_of_user uid db =
     filter (\<lambda>x. refers_to (experience_project_id x)
                    (map project_id (projects_of_user uid db)))
       (rows (experience_table db))"

definition tiers_valid :: "database \<Rightarrow> bool" where
  "tiers_valid db = list_all tier_is_valid (rows (user_table db))"

definition date_ranges_valid :: "database \<Rightarrow> bool" where
  "date_ranges_valid db = list_all date_range_is_valid (rows (experience_table db))"

section \<open>Sequences of writes\<close>

text \<open>The writes that the schema admits, and a session that performs them in turn.\<close>

datatype operation =
    InsertUser user
  | InsertResumeProject resume_project
  | InsertExperience experience
  | InsertVerificationRequest verification_request
  | InsertShareLink share_link
  | InsertSession session
  | UpdateUser user
  | UpdateExperience experience
  | DeleteUser nat
  | Commit
  | Rollback

fun perform :: "env \<Rightarrow> operation \<Rightarrow> db_session \<Rightarrow> db_session" where
  "perform E (InsertUser obj) s = snd (insert_user E obj s)"
| "perform E (InsertResumeProject obj) s = snd (insert_resume_project E obj s)"
| "perform E (InsertExperience obj) s = snd (insert_experience E obj s)"
| "perform E (InsertVerificationRequest obj) s = snd (insert_verification_request E obj s)"
| "perform E (InsertShareLink obj) s = snd (insert_share_link E obj s)"
| "perform E (InsertSession obj) s = snd (insert_session E obj s)"
| "perform E (UpdateUser obj) s = snd (update_user obj s)"
| "perform E (UpdateExperience obj) s = snd (update_experience E obj s)"
| "perform E (DeleteUser uid) s = snd (delete_user uid s)"
| "perform E Commit s = snd (commit s)"
| "perform E Rollback s = rollback s"

section \<open>Examples\<close>

definition no_tables :: database where
  "no_tables = \<lparr>user_table = None, resume_project_table = None, experience_table = None,
     verification_request_table = None, share_link_table = None, session_table = None,
     template_table = None\<rparr>"

text \<open>A clock that advances by one microsecond per reading and tokens that never repeat.\<close>

definition example_env :: env where
  "example_env = \<lparr>utcnow_at = (\<lambda>n. 1762214400000000 + int n),
     token_urlsafe_at = (\<lambda>n. replicate (Suc n) (CHR ''x'')),
     sha256_hexdigest = (\<lambda>password. password)\<rparr>"

definition example_user :: user where
  "example_user = User\<lparr>user_id := Some 1, email := Some ''ada@example.org'',
     username := Some ''ada'', password_hash := Some ''0f3c'', tier := Some ''premium''\<rparr>"

definition gold_user :: user where
  "gold_user = example_user\<lparr>tier := Some ''gold''\<rparr>"

definition backwards_experience :: experience where
  "backwards_experience = Experience\<lparr>experience_id := Some 1,
     experience_project_id := Some 1, company_name := Some ''Tech Corp'',
     position_title := Some ''Engineer'', start_date := Some (Date 2020 1 15),
     end_date := Some (Date 2019 12 31), description := Some ''Backend services''\<rparr>"

section \<open>The setup procedure\<close>

lemma setup_database_empty: "setup_database db = empty_schema"
  by (simp add: setup_database_def create_all_def drop_all_def create_table_def
      empty_schema_def)

text \<open>
  C7. Whatever the tables and rows of the database are, one run of the setup procedure
  leaves the seven tables of the schema, all empty, and a second run right after it leaves
  the same database.
\<close>

theorem setup_database_idempotent:
  "setup_database db = empty_schema
   \<and> setup_database (setup_database db) = setup_database db"
  by (simp add: setup_database_def create_all_def drop_all_def create_table_def
      empty_schema_def)

section \<open>What an insert does\<close>

lemmas action_defs = bind_def return_def utcnow_def generate_token_def commit_def
  column_default_def

lemmas check_defs = check_user_tier_def check_template_style_def
  check_verification_status_def check_date_range_def check_request_status_def
  check_access_type_def

lemma first_violation_None: "(first_violation cs = None) = list_all (\<lambda>c. \<not> fst c) cs"
  by (induction cs) (auto split: if_splits)

text \<open>
  A statement that fails leaves the session as it was; one that succeeds appends the row,
  with its new key, to its table and to the journal, and the row passed every constraint.
\<close>

lemma execute_insert_user_Inl:
  "execute_insert_user row s = (Inl e, s') \<Longrightarrow> s' = s"
  by (auto simp add: execute_insert_user_def Let_def split: option.splits)

lemma execute_insert_user_Inr:
  "execute_insert_user row s = (Inr i, s') \<Longrightarrow>
     \<exists>xs. user_table (working s) = Some xs
      \<and> s' = s\<lparr>working := (working s)
                     \<lparr>user_table := Some (xs @ [row\<lparr>user_id := Some i\<rparr>])\<rparr>,
                  journal := journal s @
                     [INSERT ''user'' i
                        None]\<rparr>
      \<and> check_user_tier row \<and> email row \<noteq> None \<and> tier row \<noteq> None
      \<and> email row \<notin> set (map email xs) \<and> username row \<notin> set (map username xs)"
  by (auto simp add: execute_insert_user_def Let_def first_violation_None
      simp del: first_violation.simps split: option.splits)

lemma execute_insert_resume_project_Inl:
  "execute_insert_resume_project row s = (Inl e, s') \<Longrightarrow> s' = s"
  by (auto simp add: execute_insert_resume_project_def Let_def split: option.splits)

lemma execute_insert_resume_project_Inr:
  "execute_insert_resume_project row s = (Inr i, s') \<Longrightarrow>
     \<exists>xs. resume_project_table (working s) = Some xs
      \<and> s' = s\<lparr>working := (working s)
                     \<lparr>resume_project_table := Some (xs @ [row\<lparr>project_id := Some i\<rparr>])\<rparr>,
                  journal := journal s @
                     [INSERT ''resume_project'' i
                        (map_option (Pair ''user'') (project_user_id row))]\<rparr>
      \<and> check_template_style row \<and> project_user_id row \<noteq> None
      \<and> project_user_id row \<in> set (map user_id (rows (user_table (working s))))"
  by (auto simp add: execute_insert_resume_project_def Let_def first_violation_None
      simp del: first_violation.simps split: option.splits)

lemma execute_insert_experience_Inl:
  "execute_insert_experience row s = (Inl e, s') \<Longrightarrow> s' = s"
  by (auto simp add: execute_insert_experience_def Let_def split: option.splits)

lemma execute_insert_experience_Inr:
  "execute_insert_experience row s = (Inr i, s') \<Longrightarrow>
     \<exists>xs. experience_table (working s) = Some xs
      \<and> s' = s\<lparr>working := (working s)
                     \<lparr>experience_table := Some (xs @ [row\<lparr>experience_id := Some i\<rparr>])\<rparr>,
                  journal := journal s @
                     [INSERT ''experience'' i
                        (map_option (Pair ''resume_project'') (experience_project_id row))]\<rparr>
      \<and> check_verification_status row \<and> check_date_range row
      \<and> start_date row \<noteq> None \<and> experience_project_id row \<noteq> None
      \<and> experience_project_id row
            \<in> set (map project_id (rows (resume_project_table (working s))))"
  by (auto simp add: execute_insert_experience_def Let_def first_violation_None
      simp del: first_violation.simps split: option.splits)

lemma execute_insert_verification_request_Inl:
  "execute_insert_verification_request row s = (Inl e, s') \<Longrightarrow> s' = s"
  by (auto simp add: execute_insert_verification_request_def Let_def split: option.splits)

lemma execute_insert_verification_request_Inr:
  "execute_insert_verification_request row s = (Inr i, s') \<Longrightarrow>
     \<exists>xs. verification_request_table (working s) = Some xs
      \<and> s' = s\<lparr>working := (working s)
                     \<lparr>verification_request_table := Some (xs @ [row\<lparr>request_id := Some i\<rparr>])\<rparr>,
                  journal := journal s @
                     [INSERT ''verification_request'' i
                        (map_option (Pair ''experience'') (request_experience_id row))]\<rparr>
      \<and> check_request_status row \<and> verification_token row \<noteq> None
      \<and> verification_token row \<notin> set (map verification_token xs)
      \<and> request_experience_id row \<noteq> None
      \<and> request_experience_id row
            \<in> set (map experience_id (rows (experience_table (working s))))"
  by (auto simp add: execute_insert_verification_request_def Let_def first_violation_None
      simp del: first_violation.simps split: option.splits)

lemma execute_insert_share_link_Inl:
  "execute_insert_share_link row s = (Inl e, s') \<Longrightarrow> s' = s"
  by (auto simp add: execute_insert_share_link_def Let_def split: option.splits)

lemma execute_insert_share_link_Inr:
  "execute_insert_share_link row s = (Inr i, s') \<Longrightarrow>
     \<exists>xs. share_link_table (working s) = Some xs
      \<and> s' = s\<lparr>working := (working s)
                     \<lparr>share_link_table := Some (xs @ [row\<lparr>share_id := Some i\<rparr>])\<rparr>,
                  journal := journal s @
                     [INSERT ''share_link'' i
                        (map_option (Pair ''resume_project'') (share_project_id row))]\<rparr>
      \<and> check_access_type row \<and> share_token row \<noteq> None
      \<and> share_token row \<notin> set (map share_token xs)
      \<and> share_project_id row \<noteq> None
      \<and> share_project_id row
            \<in> set (map project_id (rows (resume_project_table (working s))))"
  by (auto simp add: execute_insert_share_link_def Let_def first_violation_None
      simp del: first_violation.simps split: option.splits)

lemma execute_insert_session_Inl:
  "execute_insert_session row s = (Inl e, s') \<Longrightarrow> s' = s"
  by (auto simp add: execute_insert_session_def Let_def split: option.splits)

lemma execute_insert_session_Inr:
  "execute_insert_session row s = (Inr i, s') \<Longrightarrow>
     \<exists>xs. session_table (working s) = Some xs
      \<and> s' = s\<lparr>working := (working s)
                     \<lparr>session_table := Some (xs @ [row\<lparr>session_id := Some i\<rparr>])\<rparr>,
                  journal := journal s @
                     [INSERT ''session'' i
                        (map_option (Pair ''user'') (session_user_id row))]\<rparr>
      \<and> token row \<noteq> None \<and> token row \<notin> set (map token xs)
      \<and> session_user_id row \<noteq> None
      \<and> session_user_id row \<in> set (map user_id (rows (user_table (working s))))"
  by (auto simp add: execute_insert_session_def Let_def first_violation_None
      simp del: first_violation.simps split: option.splits)

text \<open>
  An insert is the statement executed on the object with its defaults filled in, after as
  many clock readings as there are unset timestamps.
\<close>

lemma insert_user_unfold:
  "insert_user E obj s =
     execute_insert_user
       (obj\<lparr>tier := Some (case tier obj of None \<Rightarrow> ''normal'' | Some v \<Rightarrow> v),
           user_created_at := Some (case user_created_at obj of
              None \<Rightarrow> utcnow_at E (utcnow_calls s)
            | Some v \<Rightarrow> v)\<rparr>)
       (s\<lparr>utcnow_calls := utcnow_calls s
          + (if user_created_at obj = None then 1 else 0)\<rparr>)"
  by (simp add: insert_user_def action_defs split: option.splits)

lemma insert_resume_project_unfold:
  "insert_resume_project E obj s =
     execute_insert_resume_project
       (obj\<lparr>template_style := Some (case template_style obj of None \<Rightarrow> ''classic'' | Some v \<Rightarrow> v),
           is_employed := Some (case is_employed obj of None \<Rightarrow> False | Some v \<Rightarrow> v),
           project_created_at := Some (case project_created_at obj of
              None \<Rightarrow> utcnow_at E (utcnow_calls s)
            | Some v \<Rightarrow> v),
           project_updated_at := Some (case project_updated_at obj of
              None \<Rightarrow> utcnow_at E (utcnow_calls s + (if project_created_at obj = None then 1 else 0))
            | Some v \<Rightarrow> v)\<rparr>)
       (s\<lparr>utcnow_calls := utcnow_calls s
          + (if project_created_at obj = None then 1 else 0)
          + (if project_updated_at obj = None then 1 else 0)\<rparr>)"
  by (simp add: insert_resume_project_def action_defs split: option.splits)

lemma insert_experience_unfold:
  "insert_experience E obj s =
     execute_insert_experience
       (obj\<lparr>verification_status := Some (case verification_status obj of None \<Rightarrow> ''not_requested'' | Some v \<Rightarrow> v),
           experience_created_at := Some (case experience_created_at obj of
              None \<Rightarrow> utcnow_at E (utcnow_calls s)
            | Some v \<Rightarrow> v),
           experience_updated_at := Some (case experience_updated_at obj of
              None \<Rightarrow> utcnow_at E (utcnow_calls s + (if experience_created_at obj = None then 1 else 0))
            | Some v \<Rightarrow> v)\<rparr>)
       (s\<lparr>utcnow_calls := utcnow_calls s
          + (if experience_created_at obj = None then 1 else 0)
          + (if experience_updated_at obj = None then 1 else 0)\<rparr>)"
  by (simp add: insert_experience_def action_defs split: option.splits)

lemma insert_verification_request_unfold:
  "insert_verification_request E obj s =
     execute_insert_verification_request
       (obj\<lparr>status := Some (case status obj of None \<Rightarrow> ''pending'' | Some v \<Rightarrow> v),
           requested_at := Some (case requested_at obj of
              None \<Rightarrow> utcnow_at E (utcnow_calls s)
            | Some v \<Rightarrow> v),
           request_expires_at := Some (case request_expires_at obj of
              None \<Rightarrow> utcnow_at E (utcnow_calls s + (if requested_at obj = None then 1 else 0))
                        + timedelta_days 30
            | Some v \<Rightarrow> v)\<rparr>)
       (s\<lparr>utcnow_calls := utcnow_calls s
          + (if requested_at obj = None then 1 else 0)
          + (if request_expires_at obj = None then 1 else 0)\<rparr>)"
  by (simp add: insert_verification_request_def action_defs split: option.splits)

lemma insert_share_link_unfold:
  "insert_share_link E obj s =
     execute_insert_share_link
       (obj\<lparr>access_type := Some (case access_type obj of None \<Rightarrow> ''view'' | Some v \<Rightarrow> v),
           view_count := Some (case view_count obj of None \<Rightarrow> 0 | Some v \<Rightarrow> v),
           share_created_at := Some (case share_created_at obj of
              None \<Rightarrow> utcnow_at E (utcnow_calls s)
            | Some v \<Rightarrow> v)\<rparr>)
       (s\<lparr>utcnow_calls := utcnow_calls s
          + (if share_created_at obj = None then 1 else 0)\<rparr>)"
  by (simp add: insert_share_link_def action_defs split: option.splits)

lemma insert_session_unfold:
  "insert_session E obj s =
     execute_insert_session
       (obj\<lparr>session_created_at := Some (case session_created_at obj of
              None \<Rightarrow> utcnow_at E (utcnow_calls s)
            | Some v \<Rightarrow> v),
           session_expires_at := Some (case session_expires_at obj of
              None \<Rightarrow> utcnow_at E (utcnow_calls s + (if session_created_at obj = None then 1 else 0))
                        + timedelta_days 7
            | Some v \<Rightarrow> v)\<rparr>)
       (s\<lparr>utcnow_calls := utcnow_calls s
          + (if session_created_at obj = None then 1 else 0)
          + (if session_expires_at obj = None then 1 else 0)\<rparr>)"
  by (simp add: insert_session_def action_defs split: option.splits)

text \<open>The two outcomes of an insert, seen from the session.\<close>

lemma insert_user_Inl:
  "insert_user E obj s = (Inl e, s') \<Longrightarrow>
     working s' = working s \<and> committed s' = committed s \<and> journal s' = journal s
     \<and> token_calls s' = token_calls s"
  by (auto simp add: insert_user_unfold dest!: execute_insert_user_Inl)

lemma insert_user_Inr:
  "insert_user E obj s = (Inr i, s') \<Longrightarrow>
     \<exists>xs row. user_table (working s) = Some xs
      \<and> working s' = (working s)\<lparr>user_table := Some (xs @ [row])\<rparr>
      \<and> committed s' = committed s \<and> token_calls s' = token_calls s
      \<and> journal s' = journal s @
            [INSERT ''user'' i
               None]
      \<and> row = obj\<lparr>tier := Some (case tier obj of None \<Rightarrow> ''normal'' | Some v \<Rightarrow> v),
           user_created_at := Some (case user_created_at obj of
              None \<Rightarrow> utcnow_at E (utcnow_calls s)
            | Some v \<Rightarrow> v),
           user_id := Some i\<rparr>
      \<and> check_user_tier row \<and> email row \<noteq> None \<and> tier row \<noteq> None
      \<and> email row \<notin> set (map email xs) \<and> username row \<notin> set (map username xs)"
  by (auto simp add: insert_user_unfold check_defs dest!: execute_insert_user_Inr)

lemma insert_resume_project_Inl:
  "insert_resume_project E obj s = (Inl e, s') \<Longrightarrow>
     working s' = working s \<and> committed s' = committed s \<and> journal s' = journal s
     \<and> token_calls s' = token_calls s"
  by (auto simp add: insert_resume_project_unfold dest!: execute_insert_resume_project_Inl)

lemma insert_resume_project_Inr:
  "insert_resume_project E obj s = (Inr i, s') \<Longrightarrow>
     \<exists>xs row. resume_project_table (working s) = Some xs
      \<and> working s' = (working s)\<lparr>resume_project_table := Some (xs @ [row])\<rparr>
      \<and> committed s' = committed s \<and> token_calls s' = token_calls s
      \<and> journal s' = journal s @
            [INSERT ''resume_project'' i
               (map_option (Pair ''user'') (project_user_id row))]
      \<and> row = obj\<lparr>template_style := Some (case template_style obj of None \<Rightarrow> ''classic'' | Some v \<Rightarrow> v),
           is_employed := Some (case is_employed obj of None \<Rightarrow> False | Some v \<Rightarrow> v),
           project_created_at := Some (case project_created_at obj of
              None \<Rightarrow> utcnow_at E (utcnow_calls s)
            | Some v \<Rightarrow> v),
           project_updated_at := Some (case project_updated_at obj of
              None \<Rightarrow> utcnow_at E (utcnow_calls s + (if project_created_at obj = None then 1 else 0))
            | Some v \<Rightarrow> v),
           project_id := Some i\<rparr>
      \<and> check_template_style row \<and> project_user_id row \<noteq> None
      \<and> project_user_id row \<in> set (map user_id (rows (user_table (working s))))"
  by (auto simp add: insert_resume_project_unfold check_defs dest!: execute_insert_resume_project_Inr)

lemma insert_experience_Inl:
  "insert_experience E obj s = (Inl e, s') \<Longrightarrow>
     working s' = working s \<and> committed s' = committed s \<and> journal s' = journal s
     \<and> token_calls s' = token_calls s"
  by (auto simp add: insert_experience_unfold dest!: execute_insert_experience_Inl)

lemma insert_experience_Inr:
  "insert_experience E obj s = (Inr i, s') \<Longrightarrow>
     \<exists>xs row. experience_table (working s) = Some xs
      \<and> working s' = (working s)\<lparr>experience_table := Some (xs @ [row])\<rparr>
      \<and> committed s' = committed s \<and> token_calls s' = token_calls s
      \<and> journal s' = journal s @
            [INSERT ''experience'' i
               (map_option (Pair ''resume_project'') (experience_project_id row))]
      \<and> row = obj\<lparr>verification_status := Some (case verification_status obj of None \<Rightarrow> ''not_requested'' | Some v \<Rightarrow> v),
           experience_created_at := Some (case experience_created_at obj of
              None \<Rightarrow> utcnow_at E (utcnow_calls s)
            | Some v \<Rightarrow> v),
           experience_updated_at := Some (case experience_updated_at obj of
              None \<Rightarrow> utcnow_at E (utcnow_calls s + (if experience_created_at obj = None then 1 else 0))
            | Some v \<Rightarrow> v),
           experience_id := Some i\<rparr>
      \<and> check_verification_status row \<and> check_date_range row
      \<and> start_date row \<noteq> None \<and> experience_project_id row \<noteq> None
      \<and> experience_project_id row
            \<in> set (map project_id (rows (resume_project_table (working s))))"
  by (auto simp add: insert_experience_unfold check_defs dest!: execute_insert_experience_Inr)

lemma insert_verification_request_Inl:
  "insert_verification_request E obj s = (Inl e, s') \<Longrightarrow>
     working s' = working s \<and> committed s' = committed s \<and> journal s' = journal s
     \<and> token_calls s' = token_calls s"
  by (auto simp add: insert_verification_request_unfold dest!: execute_insert_verification_request_Inl)

lemma insert_verification_request_Inr:
  "insert_verification_request E obj s = (Inr i, s') \<Longrightarrow>
     \<exists>xs row. verification_request_table (working s) = Some xs
      \<and> working s' = (working s)\<lparr>verification_request_table := Some (xs @ [row])\<rparr>
      \<and> committed s' = committed s \<and> token_calls s' = token_calls s
      \<and> journal s' = journal s @
            [INSERT ''verification_request'' i
               (map_option (Pair ''experience'') (request_experience_id row))]
      \<and> row = obj\<lparr>status := Some (case status obj of None \<Rightarrow> ''pending'' | Some v \<Rightarrow> v),
           requested_at := Some (case requested_at obj of
              None \<Rightarrow> utcnow_at E (utcnow_calls s)
            | Some v \<Rightarrow> v),
           request_expires_at := Some (case request_expires_at obj of
              None \<Rightarrow> utcnow_at E (utcnow_calls s + (if requested_at obj = None then 1 else 0))
                        + timedelta_days 30
            | Some v \<Rightarrow> v),
           request_id := Some i\<rparr>
      \<and> check_request_status row \<and> verification_token row \<noteq> None
      \<and> verification_token row \<notin> set (map verification_token xs)
      \<and> request_experience_id row \<noteq> None
      \<and> request_experience_id row
            \<in> set (map experience_id (rows (experience_table (working s))))"
  by (auto simp add: insert_verification_request_unfold check_defs dest!: execute_insert_verification_request_Inr)

lemma insert_share_link_Inl:
  "insert_share_link E obj s = (Inl e, s') \<Longrightarrow>
     working s' = working s \<and> committed s' = committed s \<and> journal s' = journal s
     \<and> token_calls s' = token_calls s"
  by (auto simp add: insert_share_link_unfold dest!: execute_insert_share_link_Inl)

lemma insert_share_link_Inr:
  "insert_share_link E obj s = (Inr i, s') \<Longrightarrow>
     \<exists>xs row. share_link_table (working s) = Some xs
      \<and> working s' = (working s)\<lparr>share_link_table := Some (xs @ [row])\<rparr>
      \<and> committed s' = committed s \<and> token_calls s' = token_calls s
      \<and> journal s' = journal s @
            [INSERT ''share_link'' i
               (map_option (Pair ''resume_project'') (share_project_id row))]
      \<and> row = obj\<lparr>access_type := Some (case access_type obj of None \<Rightarrow> ''view'' | Some v \<Rightarrow> v),
           view_count := Some (case view_count obj of None \<Rightarrow> 0 | Some v \<Rightarrow> v),
           share_created_at := Some (case share_created_at obj of
              None \<Rightarrow> utcnow_at E (utcnow_calls s)
            | Some v \<Rightarrow> v),
           share_id := Some i\<rparr>
      \<and> check_access_type row \<and> share_token row \<noteq> None
      \<and> share_token row \<notin> set (map share_token xs)
      \<and> share_project_id row \<noteq> None
      \<and> share_project_id row
            \<in> set (map project_id (rows (resume_project_table (working s))))"
  by (auto simp add: insert_share_link_unfold check_defs dest!: execute_insert_share_link_Inr)

lemma insert_session_Inl:
  "insert_session E obj s = (Inl e, s') \<Longrightarrow>
     working s' = working s \<and> committed s' = committed s \<and> journal s' = journal s
     \<and> token_calls s' = token_calls s"
  by (auto simp add: insert_session_unfold dest!: execute_insert_session_Inl)

lemma insert_session_Inr:
  "insert_session E obj s = (Inr i, s') \<Longrightarrow>
     \<exists>xs row. session_table (working s) = Some xs
      \<and> working s' = (working s)\<lparr>session_table := Some (xs @ [row])\<rparr>
      \<and> committed s' = committed s \<and> token_calls s' = token_calls s
      \<and> journal s' = journal s @
            [INSERT ''session'' i
               (map_option (Pair ''user'') (session_user_id row))]
      \<and> row = obj\<lparr>session_created_at := Some (case session_created_at obj of
              None \<Rightarrow> utcnow_at E (utcnow_calls s)
            | Some v \<Rightarrow> v),
           session_expires_at := Some (case session_expires_at obj of
              None \<Rightarrow> utcnow_at E (utcnow_calls s + (if session_created_at obj = None then 1 else 0))
                        + timedelta_days 7
            | Some v \<Rightarrow> v),
           session_id := Some i\<rparr>
      \<and> token row \<noteq> None \<and> token row \<notin> set (map token xs)
      \<and> session_user_id row \<noteq> None
      \<and> session_user_id row \<in> set (map user_id (rows (user_table (working s))))"
  by (auto simp add: insert_session_unfold check_defs dest!: execute_insert_session_Inr)

section \<open>Constraints hold in every database that is reached\<close>

lemma rows_Some: "rows (Some xs) = xs"
  by (simp add: rows_def)

lemma rows_map_option_filter: "rows (map_option (filter P) t) = filter P (rows t)"
  by (cases t) (simp_all add: rows_def)

lemmas delete_defs = delete_users_def delete_sessions_def delete_resume_projects_def
  delete_share_links_def delete_experiences_def delete_verification_requests_def

lemma delete_users_user_table:
  "user_table (delete_users P db) = map_option (filter (\<lambda>u. \<not> P u)) (user_table db)"
  by (simp add: delete_defs Let_def)

lemma delete_users_experience_table:
  "set (rows (experience_table (delete_users P db))) \<subseteq> set (rows (experience_table db))"
  by (auto simp add: delete_defs Let_def rows_map_option_filter)

lemma tier_is_valid_iff: "tier_is_valid u = (check_user_tier u \<and> tier u \<noteq> None)"
  by (cases "tier u") (auto simp add: tier_is_valid_def check_user_tier_def sql_in_def)

lemma date_range_is_valid_iff:
  "date_range_is_valid x =
     (check_date_range x \<and> (end_date x \<noteq> None \<longrightarrow> start_date x \<noteq> None))"
  by (cases "start_date x"; cases "end_date x")
     (simp_all add: date_range_is_valid_def check_date_range_def)

lemma execute_update_experience_Inl:
  "execute_update_experience row s = (Inl e, s') \<Longrightarrow> s' = s"
  by (auto simp add: execute_update_experience_def split: option.splits)

lemma execute_update_experience_Inr:
  "execute_update_experience row s = (Inr u, s') \<Longrightarrow>
     check_date_range row \<and> start_date row \<noteq> None
     \<and> s' = s\<lparr>working := (working s)
              \<lparr>experience_table :=
                 Some (map (\<lambda>x. if experience_id x = experience_id row then row else x)
                         (rows (experience_table (working s))))\<rparr>\<rparr>"
  by (auto simp add: execute_update_experience_def first_violation_None
      simp del: first_violation.simps split: option.splits)

text \<open>
  An update of an experience is no statement at all, an error of the session, or the
  statement executed on the object, stamped with a clock reading when \<^verbatim>\<open>updated_at\<close> was
  not set.
\<close>

lemma update_experience_cases:
  assumes "update_experience E obj s = (r, s')"
  shows "(s' = s \<and> (isl r \<or> obj \<in> set (rows (experience_table (working s)))))
       \<or> execute_update_experience obj s = (r, s')
       \<or> execute_update_experience
            (obj\<lparr>experience_updated_at := Some (utcnow_at E (utcnow_calls s))\<rparr>)
            (s\<lparr>utcnow_calls := Suc (utcnow_calls s)\<rparr>) = (r, s')"
proof (cases "experience_table (working s)")
  case None
  with assms show ?thesis by (auto simp add: update_experience_def)
next
  case (Some xs)
  show ?thesis
  proof (cases "find (\<lambda>x. experience_id obj \<noteq> None \<and> experience_id x = experience_id obj) xs")
    case None
    with Some assms show ?thesis by (auto simp add: update_experience_def)
  next
    case old: (Some old)
    then have "old \<in> set xs" by (auto simp add: find_Some_iff)
    with Some old assms show ?thesis
      by (auto simp add: update_experience_def bind_def utcnow_def rows_Some
          split: if_splits)
  qed
qed

lemma execute_update_experience_dates:
  assumes "date_ranges_valid (working s)" "execute_update_experience row s = (r, s')"
  shows "date_ranges_valid (working s') \<and> committed s' = committed s
         \<and> user_table (working s') = user_table (working s)"
proof (cases r)
  case (Inl e)
  with assms show ?thesis by (auto dest!: execute_update_experience_Inl)
next
  case (Inr u)
  with assms(2) have row: "date_range_is_valid row"
    and s': "s' = s\<lparr>working := (working s)
              \<lparr>experience_table :=
                 Some (map (\<lambda>x. if experience_id x = experience_id row then row else x)
                         (rows (experience_table (working s))))\<rparr>\<rparr>"
    by (auto simp add: date_range_is_valid_iff dest!: execute_update_experience_Inr)
  from assms(1) have "\<forall>x \<in> set (rows (experience_table (working s))). date_range_is_valid x"
    by (simp add: date_ranges_valid_def list_all_iff)
  with row show ?thesis
    by (auto simp add: s' date_ranges_valid_def list_all_iff rows_Some)
qed

lemma update_experience_dates:
  assumes "date_ranges_valid (working s)" "update_experience E obj s = (r, s')"
  shows "date_ranges_valid (working s') \<and> committed s' = committed s
         \<and> user_table (working s') = user_table (working s)"
  using update_experience_cases[OF assms(2)] assms(1)
    execute_update_experience_dates[of s obj r s']
    execute_update_experience_dates[of "s\<lparr>utcnow_calls := Suc (utcnow_calls s)\<rparr>"
      "obj\<lparr>experience_updated_at := Some (utcnow_at E (utcnow_calls s))\<rparr>" r s']
  by auto

lemma update_experience_frame:
  "committed (snd (update_experience E obj s)) = committed s
   \<and> user_table (working (snd (update_experience E obj s))) = user_table (working s)"
proof -
  obtain r s' where r: "update_experience E obj s = (r, s')"
    by (cases "update_experience E obj s")
  have frame: "execute_update_experience row t = (r, s') \<Longrightarrow>
      committed s' = committed t \<and> user_table (working s') = user_table (working t)"
    for row t
    by (cases r) (auto dest!: execute_update_experience_Inl execute_update_experience_Inr)
  from update_experience_cases[OF r] frame[of obj s]
    frame[of "obj\<lparr>experience_updated_at := Some (utcnow_at E (utcnow_calls s))\<rparr>"
      "s\<lparr>utcnow_calls := Suc (utcnow_calls s)\<rparr>"]
  show ?thesis by (auto simp add: r)
qed

lemma perform_tiers:
  assumes "tiers_valid (working s)" "tiers_valid (committed s)"
  shows "tiers_valid (working (perform E op s)) \<and> tiers_valid (committed (perform E op s))"
proof (cases op)
  case (InsertUser obj)
  obtain r s' where r: "insert_user E obj s = (r, s')"
    by (cases "insert_user E obj s")
  show ?thesis
  proof (cases r)
    case (Inl e)
    with r assms InsertUser show ?thesis by (auto dest!: insert_user_Inl)
  next
    case (Inr i)
    with r assms InsertUser show ?thesis
      by (auto simp add: tiers_valid_def rows_def tier_is_valid_iff dest!: insert_user_Inr)
  qed
next
  case (InsertResumeProject obj)
  obtain r s' where r: "insert_resume_project E obj s = (r, s')"
    by (cases "insert_resume_project E obj s")
  with assms InsertResumeProject show ?thesis
    by (cases r) (auto simp add: tiers_valid_def dest!: insert_resume_project_Inl insert_resume_project_Inr)
next
  case (InsertExperience obj)
  obtain r s' where r: "insert_experience E obj s = (r, s')"
    by (cases "insert_experience E obj s")
  with assms InsertExperience show ?thesis
    by (cases r) (auto simp add: tiers_valid_def dest!: insert_experience_Inl insert_experience_Inr)
next
  case (InsertVerificationRequest obj)
  obtain r s' where r: "insert_verification_request E obj s = (r, s')"
    by (cases "insert_verification_request E obj s")
  with assms InsertVerificationRequest show ?thesis
    by (cases r) (auto simp add: tiers_valid_def dest!: insert_verification_request_Inl insert_verification_request_Inr)
next
  case (InsertShareLink obj)
  obtain r s' where r: "insert_share_link E obj s = (r, s')"
    by (cases "insert_share_link E obj s")
  with assms InsertShareLink show ?thesis
    by (cases r) (auto simp add: tiers_valid_def dest!: insert_share_link_Inl insert_share_link_Inr)
next
  case (InsertSession obj)
  obtain r s' where r: "insert_session E obj s = (r, s')"
    by (cases "insert_session E obj s")
  with assms InsertSession show ?thesis
    by (cases r) (auto simp add: tiers_valid_def dest!: insert_session_Inl insert_session_Inr)
next
  case (UpdateUser obj)
  with assms show ?thesis
    by (auto simp add: update_user_def tiers_valid_def rows_def Let_def first_violation_None
        tier_is_valid_iff list_all_iff
        simp del: first_violation.simps split: option.splits)
next
  case (UpdateExperience obj)
  with assms update_experience_frame[of E obj s] show ?thesis
    by (simp add: tiers_valid_def)
next
  case (DeleteUser uid)
  with assms show ?thesis
    by (auto simp add: delete_user_def tiers_valid_def delete_users_user_table
        rows_map_option_filter rows_def list_all_iff split: option.splits)
next
  case Commit
  with assms show ?thesis by (simp add: commit_def)
next
  case Rollback
  with assms show ?thesis by (simp add: rollback_def)
qed

lemma fold_perform_tiers:
  "tiers_valid (working s) \<Longrightarrow> tiers_valid (committed s) \<Longrightarrow>
   tiers_valid (working (fold (perform E) ops s))
   \<and> tiers_valid (committed (fold (perform E) ops s))"
  by (induction ops arbitrary: s) (simp_all add: perform_tiers)

lemma perform_dates:
  assumes "date_ranges_valid (working s)" "date_ranges_valid (committed s)"
  shows "date_ranges_valid (working (perform E op s))
         \<and> date_ranges_valid (committed (perform E op s))"
proof (cases op)
  case (InsertExperience obj)
  obtain r s' where r: "insert_experience E obj s = (r, s')"
    by (cases "insert_experience E obj s")
  show ?thesis
  proof (cases r)
    case (Inl e)
    with r assms InsertExperience show ?thesis by (auto dest!: insert_experience_Inl)
  next
    case (Inr i)
    with r assms InsertExperience show ?thesis
      by (auto simp add: date_ranges_valid_def rows_def date_range_is_valid_iff
          dest!: insert_experience_Inr)
  qed
next
  case (InsertUser obj)
  obtain r s' where r: "insert_user E obj s = (r, s')"
    by (cases "insert_user E obj s")
  with assms InsertUser show ?thesis
    by (cases r) (auto simp add: date_ranges_valid_def dest!: insert_user_Inl insert_user_Inr)
next
  case (InsertResumeProject obj)
  obtain r s' where r: "insert_resume_project E obj s = (r, s')"
    by (cases "insert_resume_project E obj s")
  with assms InsertResumeProject show ?thesis
    by (cases r) (auto simp add: date_ranges_valid_def dest!: insert_resume_project_Inl insert_resume_project_Inr)
next
  case (InsertVerificationRequest obj)
  obtain r s' where r: "insert_verification_request E obj s = (r, s')"
    by (cases "insert_verification_request E obj s")
  with assms InsertVerificationRequest show ?thesis
    by (cases r) (auto simp add: date_ranges_valid_def dest!: insert_verification_request_Inl insert_verification_request_Inr)
next
  case (InsertShareLink obj)
  obtain r s' where r: "insert_share_link E obj s = (r, s')"
    by (cases "insert_share_link E obj s")
  with assms InsertShareLink show ?thesis
    by (cases r) (auto simp add: date_ranges_valid_def dest!: insert_share_link_Inl insert_share_link_Inr)
next
  case (InsertSession obj)
  obtain r s' where r: "insert_session E obj s = (r, s')"
    by (cases "insert_session E obj s")
  with assms InsertSession show ?thesis
    by (cases r) (auto simp add: date_ranges_valid_def dest!: insert_session_Inl insert_session_Inr)
next
  case (UpdateUser obj)
  with assms show ?thesis
    by (auto simp add: update_user_def date_ranges_valid_def Let_def
        simp del: first_violation.simps split: option.splits)
next
  case (UpdateExperience obj)
  obtain r s' where r: "update_experience E obj s = (r, s')"
    by (cases "update_experience E obj s")
  from update_experience_dates[OF assms(1) r] assms(2) UpdateExperience r
  show ?thesis by simp
next
  case (DeleteUser uid)
  with assms delete_users_experience_table[of "\<lambda>u. user_id u = Some uid" "working s"]
  show ?thesis
    by (auto simp add: delete_user_def date_ranges_valid_def list_all_iff
        split: option.splits)
next
  case Commit
  with assms show ?thesis by (simp add: commit_def)
next
  case Rollback
  with assms show ?thesis by (simp add: rollback_def)
qed

lemma fold_perform_dates:
  "date_ranges_valid (working s) \<Longrightarrow> date_ranges_valid (committed s) \<Longrightarrow>
   date_ranges_valid (working (fold (perform E) ops s))
   \<and> date_ranges_valid (committed (fold (perform E) ops s))"
  by (induction ops arbitrary: s) (simp_all add: perform_dates)

section \<open>The tier of a user\<close>

lemma execute_insert_user_rejects:
  "\<not> check_user_tier row \<Longrightarrow> \<exists>e. execute_insert_user row s = (Inl e, s)"
  by (auto simp add: execute_insert_user_def Let_def first_violation_None
      simp del: first_violation.simps split: option.splits)

lemma insert_user_rejects:
  assumes "tier obj = Some t" "t \<notin> set [''normal'', ''premium'']"
  shows "isl (fst (insert_user E obj s)) \<and> working (snd (insert_user E obj s)) = working s
         \<and> committed (snd (insert_user E obj s)) = committed s"
proof -
  define row where "row = obj\<lparr>tier := Some (case tier obj of None \<Rightarrow> ''normal'' | Some v \<Rightarrow> v),
           user_created_at := Some (case user_created_at obj of
              None \<Rightarrow> utcnow_at E (utcnow_calls s)
            | Some v \<Rightarrow> v)\<rparr>"
  define s1 where "s1 = s\<lparr>utcnow_calls := utcnow_calls s
          + (if user_created_at obj = None then 1 else 0)\<rparr>"
  from assms have "\<not> check_user_tier row" by (simp add: row_def check_user_tier_def sql_in_def)
  then obtain e where "execute_insert_user row s1 = (Inl e, s1)"
    using execute_insert_user_rejects by blast
  then have "insert_user E obj s = (Inl e, s1)"
    unfolding insert_user_unfold row_def s1_def .
  then show ?thesis by (simp add: s1_def)
qed

lemma update_user_rejects:
  assumes "tier obj = Some t" "t \<notin> set [''normal'', ''premium'']" "tiers_valid (working s)"
  shows "isl (fst (update_user obj s)) \<and> snd (update_user obj s) = s"
proof -
  from assms(1,2) have bad: "\<not> check_user_tier obj" "\<not> tier_is_valid obj"
    by (auto simp add: check_user_tier_def sql_in_def tier_is_valid_def)
  show ?thesis
  proof (cases "user_table (working s)")
    case None
    then show ?thesis by (simp add: update_user_def)
  next
    case (Some us)
    show ?thesis
    proof (cases "find (\<lambda>u. user_id obj \<noteq> None \<and> user_id u = user_id obj) us")
      case None
      with Some show ?thesis by (simp add: update_user_def)
    next
      case (Some old)
      then have "old \<in> set us" by (auto simp add: find_Some_iff)
      with assms(3) \<open>user_table (working s) = Some us\<close> have "tier_is_valid old"
        by (auto simp add: tiers_valid_def rows_def list_all_iff)
      with bad have "obj \<noteq> old" by auto
      with Some \<open>user_table (working s) = Some us\<close> bad show ?thesis
        by (simp add: update_user_def Let_def)
    qed
  qed
qed

lemma setup_tiers: "tiers_valid (setup_database db)"
  by (simp add: setup_database_empty empty_schema_def tiers_valid_def rows_def)

text \<open>
  C9. In every database reached from a set-up schema by any sequence of writes, the tier
  of every user is \<^verbatim>\<open>normal\<close> or \<^verbatim>\<open>premium\<close>; there, an insert or an update that gives
  another tier fails and leaves the tables as they were.
\<close>

theorem user_tier_constraint:
  assumes "s = fold (perform E) ops (sessionmaker (setup_database db))"
  shows "tiers_valid (working s) \<and> tiers_valid (committed s)
     \<and> (tier obj = Some t \<and> t \<notin> set [''normal'', ''premium''] \<longrightarrow>
          isl (fst (insert_user E obj s))
          \<and> working (snd (insert_user E obj s)) = working s
          \<and> isl (fst (update_user obj s))
          \<and> working (snd (update_user obj s)) = working s)"
proof -
  have inv: "tiers_valid (working s) \<and> tiers_valid (committed s)"
    unfolding assms by (rule fold_perform_tiers) (simp_all add: sessionmaker_def setup_tiers)
  with insert_user_rejects[of obj t E s] update_user_rejects[of obj t s]
  show ?thesis by auto
qed

theorem user_tier_constraint_witness:
  "tiers_valid (working (fold (perform example_env) [InsertUser example_user, Commit]
        (sessionmaker (setup_database no_tables))))
   \<and> isl (fst (insert_user example_env gold_user
        (fold (perform example_env) [InsertUser example_user, Commit]
           (sessionmaker (setup_database no_tables)))))
   \<and> isl (fst (update_user gold_user
        (fold (perform example_env) [InsertUser example_user, Commit]
           (sessionmaker (setup_database no_tables)))))"
  using user_tier_constraint[OF refl, where obj = gold_user and t = "''gold''"
      and E = example_env and ops = "[InsertUser example_user, Commit]" and db = no_tables]
  by (simp add: gold_user_def example_user_def User_def)

section \<open>The date range of an experience\<close>

lemma execute_insert_experience_rejects:
  "\<not> check_date_range row \<Longrightarrow> \<exists>e. execute_insert_experience row s = (Inl e, s)"
  by (auto simp add: execute_insert_experience_def Let_def first_violation_None
      simp del: first_violation.simps split: option.splits)

lemma execute_update_experience_rejects:
  "\<not> check_date_range row \<Longrightarrow> \<exists>e. execute_update_experience row s = (Inl e, s)"
  by (auto simp add: execute_update_experience_def first_violation_None
      simp del: first_violation.simps split: option.splits)

lemma insert_experience_rejects:
  assumes "start_date obj = Some b" "end_date obj = Some e" "\<not> date_le b e"
  shows "isl (fst (insert_experience E obj s))
         \<and> working (snd (insert_experience E obj s)) = working s
         \<and> committed (snd (insert_experience E obj s)) = committed s"
proof -
  define row where "row = obj\<lparr>verification_status := Some (case verification_status obj of
              None \<Rightarrow> ''not_requested'' | Some v \<Rightarrow> v),
           experience_created_at := Some (case experience_created_at obj of
              None \<Rightarrow> utcnow_at E (utcnow_calls s)
            | Some v \<Rightarrow> v),
           experience_updated_at := Some (case experience_updated_at obj of
              None \<Rightarrow> utcnow_at E (utcnow_calls s
                        + (if experience_created_at obj = None then 1 else 0))
            | Some v \<Rightarrow> v)\<rparr>"
  define s1 where "s1 = s\<lparr>utcnow_calls := utcnow_calls s
          + (if experience_created_at obj = None then 1 else 0)
          + (if experience_updated_at obj = None then 1 else 0)\<rparr>"
  from assms have "\<not> check_date_range row" by (simp add: row_def check_date_range_def)
  then obtain err where "execute_insert_experience row s1 = (Inl err, s1)"
    using execute_insert_experience_rejects by blast
  then have "insert_experience E obj s = (Inl err, s1)"
    unfolding insert_experience_unfold row_def s1_def .
  then show ?thesis by (simp add: s1_def)
qed

lemma update_experience_rejects:
  assumes "start_date obj = Some b" "end_date obj = Some e" "\<not> date_le b e"
    and "date_ranges_valid (working s)"
  shows "isl (fst (update_experience E obj s))
         \<and> working (snd (update_experience E obj s)) = working s"
proof -
  obtain r s' where r: "update_experience E obj s = (r, s')"
    by (cases "update_experience E obj s")
  from assms(1-3) have bad: "\<not> check_date_range obj" "\<not> date_range_is_valid obj"
    "\<not> check_date_range
         (obj\<lparr>experience_updated_at := Some (utcnow_at E (utcnow_calls s))\<rparr>)"
    by (simp_all add: check_date_range_def date_range_is_valid_def)
  from assms(4) bad(2) have "obj \<notin> set (rows (experience_table (working s)))"
    by (auto simp add: date_ranges_valid_def list_all_iff)
  with update_experience_cases[OF r]
    execute_update_experience_rejects[OF bad(1), of s]
    execute_update_experience_rejects[OF bad(3), of "s\<lparr>utcnow_calls := Suc (utcnow_calls s)\<rparr>"]
  show ?thesis by (auto simp add: r)
qed

lemma setup_dates: "date_ranges_valid (setup_database db)"
  by (simp add: setup_database_empty empty_schema_def date_ranges_valid_def rows_def)

text \<open>
  C8. In every database reached from a set-up schema by any sequence of writes, every
  experience that has an end date has it on or after its start date; there, an insert or
  an update whose end date is before its start date fails and leaves the tables as they
  were. An experience from 2020-01-15 to 2019-12-31 is one.
\<close>

theorem experience_date_range_constraint:
  assumes "s = fold (perform E) ops (sessionmaker (setup_database db))"
  shows "date_ranges_valid (working s) \<and> date_ranges_valid (committed s)
     \<and> (start_date obj = Some b \<and> end_date obj = Some e \<and> \<not> date_le b e \<longrightarrow>
          isl (fst (insert_experience E obj s))
          \<and> working (snd (insert_experience E obj s)) = working s
          \<and> isl (fst (update_experience E obj s))
          \<and> working (snd (update_experience E obj s)) = working s)"
proof -
  have inv: "date_ranges_valid (working s) \<and> date_ranges_valid (committed s)"
    unfolding assms by (rule fold_perform_dates) (simp_all add: sessionmaker_def setup_dates)
  with insert_experience_rejects[of obj b e E s] update_experience_rejects[of obj b e s E]
  show ?thesis by auto
qed

theorem experience_date_range_constraint_witness:
  "date_ranges_valid (working (fold (perform example_env) [InsertUser example_user]
        (sessionmaker (setup_database no_tables))))
   \<and> isl (fst (insert_experience example_env backwards_experience
        (fold (perform example_env) [InsertUser example_user]
           (sessionmaker (setup_database no_tables)))))
   \<and> isl (fst (update_experience example_env backwards_experience
        (fold (perform example_env) [InsertUser example_user]
           (sessionmaker (setup_database no_tables)))))"
  using experience_date_range_constraint[OF refl, where obj = backwards_experience
      and b = "Date 2020 1 15" and e = "Date 2019 12 31"
      and E = example_env and ops = "[InsertUser example_user]" and db = no_tables]
  by (simp add: backwards_experience_def Experience_def)

end
